theory Spec2Isabelle
  imports Complex_Main
begin

section \<open>Python strings and dates\<close>

text \<open>
  A Python \<open>str\<close> is modelled as a \<open>string\<close>, one \<open>char\<close> per character, for
  the characters U+0000 to U+00FF (a \<open>char\<close> has eight bits). The library
  functions the application calls on strings are written out for that range.
  \<open>is_space\<close> is the white space of \<open>str.strip\<close> and \<open>str.split\<close>: the ASCII
  white space, the four separators U+001C to U+001F, the next-line character
  U+0085 and the no-break space U+00A0. \<open>str.lower\<close> maps \<open>A..Z\<close> and the
  capital letters U+00C0 to U+00DE (the multiplication sign U+00D7 apart) to
  the letter 32 places further on.
\<close>

definition is_space :: "char \<Rightarrow> bool" where
  "is_space c = (c \<in> set [CHR '' '', CHR 0x09, CHR 0x0A, CHR 0x0B, CHR 0x0C, CHR 0x0D,
                           CHR 0x1C, CHR 0x1D, CHR 0x1E, CHR 0x1F, CHR 0x85, CHR 0xA0])"

definition lower_char :: "char \<Rightarrow> char" where
  "lower_char c =
     (let n = (of_char c :: nat)
      in if (65 \<le> n \<and> n \<le> 90) \<or> (192 \<le> n \<and> n \<le> 222 \<and> n \<noteq> 215)
         then char_of (n + 32) else c)"

definition lower :: "string \<Rightarrow> string" where
  "lower s = map lower_char s"

definition strip :: "string \<Rightarrow> string" where
  "strip s = rev (dropWhile is_space (rev (dropWhile is_space s)))"

fun startswith :: "string \<Rightarrow> string \<Rightarrow> bool" where
  "startswith s [] = True"
| "startswith [] (p # ps) = False"
| "startswith (c # cs) (p # ps) = (c = p \<and> startswith cs ps)"

text \<open>\<open>contains s sub\<close> is Python's \<open>sub in s\<close>.\<close>

fun contains :: "string \<Rightarrow> string \<Rightarrow> bool" where
  "contains [] sub = (sub = [])"
| "contains (c # cs) sub = (startswith (c # cs) sub \<or> contains cs sub)"

fun endswith_char :: "string \<Rightarrow> char \<Rightarrow> bool" where
  "endswith_char [] d = False"
| "endswith_char [c] d = (c = d)"
| "endswith_char (c # cs) d = endswith_char cs d"

text \<open>\<open>str_join sep xs\<close> is \<open>sep.join(xs)\<close>.\<close>

fun str_join :: "string \<Rightarrow> string list \<Rightarrow> string" where
  "str_join sep [] = []"
| "str_join sep [x] = x"
| "str_join sep (x # y # ys) = x @ sep @ str_join sep (y # ys)"

text \<open>
  \<open>split_ws s\<close> is \<open>s.split()\<close>: the maximal runs of characters that are not
  white space. \<open>split_acc\<close> carries the run read so far.
\<close>

fun split_acc :: "string \<Rightarrow> string \<Rightarrow> string list" where
  "split_acc [] cur = (if cur = [] then [] else [cur])"
| "split_acc (c # cs) cur =
     (if is_space c then (if cur = [] then split_acc cs [] else cur # split_acc cs [])
      else split_acc cs (cur @ [c]))"

definition split_ws :: "string \<Rightarrow> string list" where
  "split_ws s = split_acc s []"

text \<open>
  The process clock. \<open>datetime.now()\<close> is the naive local time: the instant
  plus the offset of the process's time zone; \<open>datetime.utcnow()\<close> would leave
  the offset out. A date is the number of days since 1970-01-01, and
  \<open>strftime_ymd\<close> prints it as \<open>strftime('%Y-%m-%d')\<close> does (proleptic Gregorian
  calendar, years 1000 to 9999).
\<close>

record clock =
  epoch_seconds :: int
  utc_offset :: int

definition local_day :: "clock \<Rightarrow> int" where
  "local_day c = (epoch_seconds c + utc_offset c) div 86400"

definition utc_day :: "clock \<Rightarrow> int" where
  "utc_day c = epoch_seconds c div 86400"

definition civil_from_days :: "int \<Rightarrow> int \<times> int \<times> int" where
  "civil_from_days z0 =
     (let z = z0 + 719468;
          era = z div 146097;
          doe = z - era * 146097;
          yoe = (doe - doe div 1460 + doe div 36524 - doe div 146096) div 365;
          doy = doe - (365 * yoe + yoe div 4 - yoe div 100);
          mp = (5 * doy + 2) div 153;
          d = doy - (153 * mp + 2) div 5 + 1;
          m = (if mp < 10 then mp + 3 else mp - 9);
          y = yoe + era * 400 + (if m \<le> 2 then 1 else 0)
      in (y, m, d))"

definition digit_char :: "nat \<Rightarrow> char" where
  "digit_char n = char_of (48 + n mod 10)"

definition pad2 :: "nat \<Rightarrow> string" where
  "pad2 n = [digit_char (n div 10), digit_char n]"

definition pad4 :: "nat \<Rightarrow> string" where
  "pad4 n = [digit_char (n div 1000), digit_char (n div 100), digit_char (n div 10), digit_char n]"

definition strftime_ymd :: "int \<Rightarrow> string" where
  "strftime_ymd day =
     (case civil_from_days day of
        (y, m, d) \<Rightarrow> pad4 (nat y) @ ''-'' @ pad2 (nat m) @ ''-'' @ pad2 (nat d))"

text \<open>\<open>datetime.now().strftime('%Y-%m-%d')\<close> and the date seven days before.\<close>

definition today :: "clock \<Rightarrow> string" where
  "today c = strftime_ymd (local_day c)"

definition last_week :: "clock \<Rightarrow> string" where
  "last_week c = strftime_ymd (local_day c - 7)"

definition utc_today :: "clock \<Rightarrow> string" where
  "utc_today c = strftime_ymd (utc_day c)"

section \<open>Data model\<close>

text \<open>\<open>app/models/query.py\<close>: the query categories and their string values.\<close>

datatype QueryType = LOCATION | BUSINESS_MODEL | INVESTMENTS | NEWS | CUSTOMERS | GENERAL

fun QueryType_value :: "QueryType \<Rightarrow> string" where
  "QueryType_value LOCATION = ''location''"
| "QueryType_value BUSINESS_MODEL = ''business_model''"
| "QueryType_value INVESTMENTS = ''investments''"
| "QueryType_value NEWS = ''news''"
| "QueryType_value CUSTOMERS = ''customers''"
| "QueryType_value GENERAL = ''general''"

text \<open>\<open>QueryType(v)\<close>; \<open>None\<close> stands for the \<open>ValueError\<close> of an unknown value.\<close>

definition QueryType_of_value :: "string \<Rightarrow> QueryType option" where
  "QueryType_of_value v =
     (if v = ''location'' then Some LOCATION
      else if v = ''business_model'' then Some BUSINESS_MODEL
      else if v = ''investments'' then Some INVESTMENTS
      else if v = ''news'' then Some NEWS
      else if v = ''customers'' then Some CUSTOMERS
      else if v = ''general'' then Some GENERAL
      else None)"

text \<open>
  \<open>IntentAnalysis\<close>: the four lists are the entries of \<open>extracted_entities\<close>, which
  \<open>QueryParser.analyze_intent\<close> always builds with exactly these keys.
\<close>

record IntentAnalysis =
  query_type :: QueryType
  companies :: "string list"
  products :: "string list"
  people :: "string list"
  attributes :: "string list"
  time_constraints :: "string option"

record AmbiguityCheck =
  is_ambiguous :: bool
  clarification_message :: "string option"
  possible_interpretations :: "string list option"
  ac_confidence_score :: real

text \<open>
  An evidence item is the dict a retriever builds: \<open>content\<close>, \<open>source\<close>, \<open>query\<close>
  and, for web results, \<open>url\<close> (\<open>None\<close>: no such key, or a null value). A
  retrieval result is the dict \<open>{"results": [...], "source": tag}\<close>.
\<close>

record item =
  content :: string
  source :: string
  url :: "string option"
  query :: string

record retrieval =
  results :: "item list"
  source_tag :: string

text \<open>\<open>app/models/response.py\<close>.\<close>

record ValidationDetails =
  key_findings :: "string list"
  summary :: string
  supporting_sources :: "string list"

record ValidationResult =
  is_valid :: bool
  vr_confidence_score :: real
  missing_information :: "string list"
  validation_details :: ValidationDetails

record QueryResponse =
  response :: string
  qr_confidence_score :: real

text \<open>\<open>EvaluationOutput\<close> of \<open>app/services/evaluator.py\<close>, the evaluator model's reply.\<close>

record EvaluationOutput =
  main_points :: "string list"
  eo_missing_information :: "string list"
  eo_confidence_score :: real
  eo_summary :: string
  source_quality :: "(string \<times> real) list"

text \<open>
  Exceptions are values. \<open>CollaboratorError\<close> is whatever an external call raises
  (a model chain, a search provider); the others are raised by the application
  or by the libraries it validates its data with.
\<close>

datatype error =
    ValueError
  | ValidationError
  | CollaboratorError
  | CacheOperationError string
  | CacheSerializationError string

text \<open>
  The pydantic constructors: each field declared with \<open>ge=0.0, le=1.0\<close> is checked
  when the object is built, and the constructor raises otherwise.
\<close>

definition in_unit :: "real \<Rightarrow> bool" where
  "in_unit c = (0 \<le> c \<and> c \<le> 1)"

definition mk_AmbiguityCheck ::
  "bool \<Rightarrow> string option \<Rightarrow> string list option \<Rightarrow> real \<Rightarrow> error + AmbiguityCheck" where
  "mk_AmbiguityCheck a m ps c =
     (if in_unit c
      then Inr \<lparr>is_ambiguous = a, clarification_message = m,
                possible_interpretations = ps, ac_confidence_score = c\<rparr>
      else Inl ValidationError)"

definition default_details :: ValidationDetails where
  "default_details = \<lparr>key_findings = [], summary = [], supporting_sources = []\<rparr>"

definition mk_ValidationResult ::
  "bool \<Rightarrow> real \<Rightarrow> string list \<Rightarrow> ValidationDetails \<Rightarrow> error + ValidationResult" where
  "mk_ValidationResult v c ms d =
     (if in_unit c
      then Inr \<lparr>is_valid = v, vr_confidence_score = c, missing_information = ms,
                validation_details = d\<rparr>
      else Inl ValidationError)"

definition mk_QueryResponse :: "string \<Rightarrow> real \<Rightarrow> error + QueryResponse" where
  "mk_QueryResponse t c =
     (if in_unit c then Inr \<lparr>response = t, qr_confidence_score = c\<rparr>
      else Inl ValidationError)"

text \<open>\<open>PydanticOutputParser(EvaluationOutput)\<close> applied to the model's reply.\<close>

definition parse_EvaluationOutput :: "EvaluationOutput \<Rightarrow> error + EvaluationOutput" where
  "parse_EvaluationOutput ev =
     (if in_unit (eo_confidence_score ev) then Inr ev else Inl ValidationError)"

section \<open>External collaborators and the state of a run\<close>

text \<open>
  What the two model chains of \<open>QueryParser\<close> return, read at the types the
  application reads them at (\<open>.get\<close> with its default, \<open>bool(...)\<close>, \<open>float(...)\<close>).
  A reply that cannot be read so raises inside the same \<open>try\<close> block as a failing
  chain and is counted as one: the collaborator returns \<open>Inl\<close>.
  \<open>raw_query_type = None\<close>: the reply has no \<open>query_type\<close> key.
\<close>

record raw_intent =
  raw_query_type :: "string option"
  raw_companies :: "string list"
  raw_products :: "string list"
  raw_people :: "string list"
  raw_attributes :: "string list"
  raw_time_constraints :: "string option"

record raw_ambiguity =
  raw_is_ambiguous :: bool
  raw_clarification_message :: "string option"
  raw_possible_interpretations :: "string list option"
  raw_confidence_score :: real

record evaluation_input =
  ei_query :: string
  ei_query_type :: string
  ei_companies :: string
  ei_data :: string

text \<open>
  A reply of the web search tool: a list whose entries are dicts (with their
  \<open>content\<close> and \<open>url\<close> entries, \<open>None\<close> when missing) or something else, or a
  text (the tool reports its own failures as a string).
\<close>

datatype tavily_item = TavilyDict "string option" "string option" | TavilyOther

datatype tavily_reply = TavilyList "tavily_item list" | TavilyText string

text \<open>
  The environment of a run: the collaborators, \<open>hashlib.sha256(...).hexdigest()\<close>,
  the order in which Python iterates a set of strings built by adding the given
  strings in turn, the clock, the two facts about the cache a run cannot
  change (\<open>settings.CACHE_ENABLED\<close>, and whether the Redis server answers), and
  which of the two concurrent retrieval nodes the graph starts first.
\<close>

record env =
  intent_chain :: "string \<Rightarrow> error + raw_intent"
  ambiguity_chain :: "string \<Rightarrow> string \<Rightarrow> error + raw_ambiguity"
  evaluation_chain :: "evaluation_input \<Rightarrow> error + EvaluationOutput"
  wikipedia_arun :: "string \<Rightarrow> error + string"
  tavily_arun :: "string \<Rightarrow> error + tavily_reply"
  sha256_hexdigest :: "string \<Rightarrow> string"
  set_order :: "string list \<Rightarrow> string list"
  now :: clock
  cache_enabled :: bool
  redis_up :: bool
  tavily_first :: bool

text \<open>
  What a Redis key holds: the empty text, a text \<open>json.loads\<close> rejects, or the
  JSON text of a value, which is falsy (\<open>null\<close>, \<open>{}\<close>, ...) or a retrieval result.
\<close>

datatype json = JFalsy | JResults retrieval

datatype stored = Blank | NotJson | Json json

text \<open>Every call that leaves the process is recorded, in order.\<close>

datatype call =
    IntentModel string
  | AmbiguityModel string string
  | EvaluatorModel evaluation_input
  | RedisGet string
  | RedisSetex string int
  | WikipediaProvider string
  | TavilyProvider string

record world =
  redis :: "string \<Rightarrow> (stored \<times> int) option"
  calls :: "call list"

definition record_call :: "call \<Rightarrow> world \<Rightarrow> world" where
  "record_call c w = w\<lparr>calls := calls w @ [c]\<rparr>"

section \<open>The result cache (\<open>app/services/cache.py\<close>)\<close>

text \<open>\<open>app/constants/cache_constants.py\<close>.\<close>

definition CacheTTL_DEFAULT :: int where "CacheTTL_DEFAULT = 86400"
definition CacheTTL_NEWS :: int where "CacheTTL_NEWS = 3600"
definition CacheTTL_LOCATION :: int where "CacheTTL_LOCATION = 604800"
definition CacheTTL_BUSINESS :: int where "CacheTTL_BUSINESS = 43200"
definition CacheTTL_INVESTMENT :: int where "CacheTTL_INVESTMENT = 21600"

definition CachePrefix_COMPANY_INFO :: string where
  "CachePrefix_COMPANY_INFO = ''company_info''"

text \<open>The cache's own \<open>QueryType\<close> enum, by its values.\<close>

datatype CacheQueryType = CQ_NEWS | CQ_LOCATION | CQ_BUSINESS | CQ_INVESTMENT | CQ_GENERAL

fun CacheQueryType_value :: "CacheQueryType \<Rightarrow> string" where
  "CacheQueryType_value CQ_NEWS = ''news''"
| "CacheQueryType_value CQ_LOCATION = ''location''"
| "CacheQueryType_value CQ_BUSINESS = ''business''"
| "CacheQueryType_value CQ_INVESTMENT = ''investment''"
| "CacheQueryType_value CQ_GENERAL = ''general''"

definition TTL_MAPPING :: "(string \<times> int) list" where
  "TTL_MAPPING =
     [(CacheQueryType_value CQ_NEWS, CacheTTL_NEWS),
      (CacheQueryType_value CQ_LOCATION, CacheTTL_LOCATION),
      (CacheQueryType_value CQ_BUSINESS, CacheTTL_BUSINESS),
      (CacheQueryType_value CQ_INVESTMENT, CacheTTL_INVESTMENT),
      (CacheQueryType_value CQ_GENERAL, CacheTTL_DEFAULT)]"

definition calculate_ttl :: "string \<Rightarrow> int" where
  "calculate_ttl qt = (case map_of TTL_MAPPING qt of Some t \<Rightarrow> t | None \<Rightarrow> CacheTTL_DEFAULT)"

text \<open>
  \<open>_generate_cache_key\<close>. \<open>has_recency_marker\<close> is the \<open>any(term in key_lower ...)\<close>
  test and \<open>key_content\<close> the text that is hashed.
\<close>

definition has_recency_marker :: "string \<Rightarrow> bool" where
  "has_recency_marker key_lower =
     (contains key_lower ''news'' \<or> contains key_lower ''latest'' \<or> contains key_lower ''recent'')"

definition key_content :: "clock \<Rightarrow> string \<Rightarrow> string \<Rightarrow> string" where
  "key_content clk key src =
     (let key_lower = strip (lower key) in
      if has_recency_marker key_lower
      then key_lower @ '':'' @ src @ '':'' @ today clk
      else key_lower @ '':'' @ src)"

definition generate_cache_key :: "env \<Rightarrow> string \<Rightarrow> string \<Rightarrow> string" where
  "generate_cache_key e key src =
     CachePrefix_COMPANY_INFO @ '':'' @ sha256_hexdigest e (key_content (now e) key src)"

text \<open>
  \<open>get_cached_data\<close>: \<open>None\<close> when the cache is disabled, the key is missing or
  holds the empty text; a Redis failure is raised as \<open>CacheOperationError\<close>, an
  undecodable text as \<open>CacheSerializationError\<close>.
\<close>

definition get_cached_data ::
  "env \<Rightarrow> string \<Rightarrow> string \<Rightarrow> world \<Rightarrow> (error + json option) \<times> world" where
  "get_cached_data e key src w =
     (if \<not> cache_enabled e then (Inr None, w)
      else
        let cache_key = generate_cache_key e key src;
            w1 = record_call (RedisGet cache_key) w
        in if \<not> redis_up e then (Inl (CacheOperationError ''get''), w1)
           else (case redis w1 cache_key of
                   None \<Rightarrow> (Inr None, w1)
                 | Some (Blank, t) \<Rightarrow> (Inr None, w1)
                 | Some (NotJson, t) \<Rightarrow> (Inl (CacheSerializationError ''deserialization''), w1)
                 | Some (Json j, t) \<Rightarrow> (Inr (Some j), w1)))"

text \<open>
  \<open>set_cached_data\<close>. A retrieval result always serialises. \<open>SETEX\<close> stores the
  text with its expiry and answers true; the server rejects an expiry that is
  not positive or whose milliseconds do not fit its signed 64-bit clock (more
  than \<open>LLONG_MAX / 1000\<close> seconds), which reaches the caller as
  \<open>CacheOperationError\<close> like any other Redis failure.
\<close>

definition max_expiry_seconds :: int where
  "max_expiry_seconds = 9223372036854775807 div 1000"

definition set_cached_data ::
  "env \<Rightarrow> string \<Rightarrow> string \<Rightarrow> retrieval \<Rightarrow> int option \<Rightarrow> world \<Rightarrow> (error + bool) \<times> world" where
  "set_cached_data e key src data ttl w =
     (if \<not> cache_enabled e then (Inr False, w)
      else
        let cache_key = generate_cache_key e key src;
            serialized_data = Json (JResults data);
            expiration = (case ttl of Some t \<Rightarrow> t
                          | None \<Rightarrow> calculate_ttl (CacheQueryType_value CQ_GENERAL));
            w1 = record_call (RedisSetex cache_key expiration) w
        in if \<not> redis_up e then (Inl (CacheOperationError ''set''), w1)
           else if expiration \<le> 0 then (Inl (CacheOperationError ''set''), w1)
           else if expiration > max_expiry_seconds then (Inl (CacheOperationError ''set''), w1)
           else (Inr True, w1\<lparr>redis := (redis w1)(cache_key \<mapsto> (serialized_data, expiration))\<rparr>))"

section \<open>The retrievers (\<open>app/services/data_retriever.py\<close>)\<close>

definition empty_retrieval :: "string \<Rightarrow> retrieval" where
  "empty_retrieval tag = \<lparr>results = [], source_tag = tag\<rparr>"

definition generate_wikipedia_query :: "IntentAnalysis \<Rightarrow> string" where
  "generate_wikipedia_query ia =
     (case companies ia of
        [] \<Rightarrow> []
      | company # _ \<Rightarrow>
          (case query_type ia of
             LOCATION \<Rightarrow> company @ '' headquarters location company''
           | BUSINESS_MODEL \<Rightarrow> company @ '' business model revenue''
           | INVESTMENTS \<Rightarrow> company @ '' investments portfolio companies''
           | NEWS \<Rightarrow> company @ '' company recent developments''
           | CUSTOMERS \<Rightarrow> company @ '' customers clients''
           | GENERAL \<Rightarrow> company @ '' company information''))"

definition tavily_templates :: "QueryType \<Rightarrow> string \<Rightarrow> string \<Rightarrow> string list" where
  "tavily_templates qt company time_constraint =
     (case qt of
        NEWS \<Rightarrow> [''latest news about '' @ company @ '' '' @ time_constraint,
                 company @ '' recent news articles '' @ time_constraint,
                 company @ '' press releases '' @ time_constraint]
      | LOCATION \<Rightarrow> [company @ '' headquarters current location'',
                     ''Where is '' @ company @ '' headquartered'']
      | BUSINESS_MODEL \<Rightarrow> [''How does '' @ company @ '' make money business model'',
                           company @ '' revenue model business model current'']
      | INVESTMENTS \<Rightarrow> [company @ '' investment portfolio companies'',
                        ''companies '' @ company @ '' has invested in recent'']
      | CUSTOMERS \<Rightarrow> [company @ '' main customers current'',
                      company @ '' target market clients'']
      | GENERAL \<Rightarrow> [company @ '' company overview current'',
                    company @ '' company main information''])"

definition generate_tavily_query :: "env \<Rightarrow> IntentAnalysis \<Rightarrow> string" where
  "generate_tavily_query e ia =
     (case companies ia of
        [] \<Rightarrow> []
      | company # _ \<Rightarrow>
          let time_constraint =
                (if query_type ia = NEWS then ''after:'' @ last_week (now e) else []);
              queries = tavily_templates (query_type ia) company time_constraint;
              queries2 =
                (case time_constraints ia of
                   None \<Rightarrow> queries
                 | Some tc \<Rightarrow> if tc = [] then queries else map (\<lambda>q. q @ '' '' @ tc) queries)
          in (case queries2 of [] \<Rightarrow> [] | q # _ \<Rightarrow> q))"

text \<open>
  \<open>retrieve_wikipedia_data\<close>. The cache lookup stands outside the \<open>try\<close> block,
  so what it raises leaves the function; a failure of the provider is logged
  and gives the empty result.
\<close>

definition retrieve_wikipedia_data ::
  "env \<Rightarrow> IntentAnalysis \<Rightarrow> world \<Rightarrow> (error + retrieval) \<times> world" where
  "retrieve_wikipedia_data e ia w =
     (if companies ia = [] then (Inr (empty_retrieval ''Wikipedia''), w)
      else
        let q = generate_wikipedia_query ia in
        (case get_cached_data e q ''wikipedia'' w of
           (Inl err, w1) \<Rightarrow> (Inl err, w1)
         | (Inr cached_data, w1) \<Rightarrow>
             (case cached_data of
                Some (JResults r) \<Rightarrow> (Inr r, w1)
              | _ \<Rightarrow>
                  let w2 = record_call (WikipediaProvider q) w1 in
                  (case wikipedia_arun e q of
                     Inr wiki_result \<Rightarrow>
                       if wiki_result \<noteq> []
                       then (Inr \<lparr>results = [\<lparr>content = wiki_result, source = ''Wikipedia'',
                                               url = None, query = q\<rparr>],
                                  source_tag = ''Wikipedia''\<rparr>, w2)
                       else (Inr (empty_retrieval ''Wikipedia''), w2)
                   | Inl err \<Rightarrow> (Inr (empty_retrieval ''Wikipedia''), w2)))))"

fun tavily_has_content :: "tavily_item \<Rightarrow> bool" where
  "tavily_has_content (TavilyDict (Some c) u) = (c \<noteq> [])"
| "tavily_has_content (TavilyDict None u) = False"
| "tavily_has_content TavilyOther = False"

text \<open>The filter applied to a list reply of a news query.\<close>

definition news_filter :: "tavily_item list \<Rightarrow> tavily_item list" where
  "news_filter tavily_results =
     (let filtered_results = filter tavily_has_content tavily_results
      in if filtered_results \<noteq> [] then filtered_results else tavily_results)"

fun tavily_items :: "string \<Rightarrow> tavily_item list \<Rightarrow> item list" where
  "tavily_items q [] = []"
| "tavily_items q (TavilyDict (Some c) u # rest) =
     (if c \<noteq> [] then \<lparr>content = c, source = ''Tavily'', url = u, query = q\<rparr> # tavily_items q rest
      else tavily_items q rest)"
| "tavily_items q (TavilyDict None u # rest) = tavily_items q rest"
| "tavily_items q (TavilyOther # rest) = tavily_items q rest"

text \<open>
  \<open>retrieve_tavily_data\<close>. A text reply is iterated character by character by
  the final comprehension, and no character is a dict: it gives no item.
\<close>

definition retrieve_tavily_data ::
  "env \<Rightarrow> IntentAnalysis \<Rightarrow> world \<Rightarrow> (error + retrieval) \<times> world" where
  "retrieve_tavily_data e ia w =
     (if companies ia = [] then (Inr (empty_retrieval ''Tavily''), w)
      else
        let q = generate_tavily_query e ia in
        (case get_cached_data e q ''Tavily'' w of
           (Inl err, w1) \<Rightarrow> (Inl err, w1)
         | (Inr cached_data, w1) \<Rightarrow>
             (case cached_data of
                Some (JResults r) \<Rightarrow> (Inr r, w1)
              | _ \<Rightarrow>
                  let w2 = record_call (TavilyProvider q) w1 in
                  (case tavily_arun e q of
                     Inr (TavilyList tavily_results) \<Rightarrow>
                       let tavily_results2 =
                             (if query_type ia = NEWS then news_filter tavily_results
                              else tavily_results)
                       in (Inr \<lparr>results = tavily_items q tavily_results2,
                                 source_tag = ''Tavily''\<rparr>, w2)
                   | Inr (TavilyText t) \<Rightarrow> (Inr \<lparr>results = [], source_tag = ''Tavily''\<rparr>, w2)
                   | Inl err \<Rightarrow> (Inr (empty_retrieval ''Tavily''), w2)))))"

section \<open>The query parser (\<open>app/services/query_parser.py\<close>)\<close>

definition default_intent :: IntentAnalysis where
  "default_intent =
     \<lparr>query_type = GENERAL, companies = [], products = [], people = [], attributes = [],
      time_constraints = None\<rparr>"

text \<open>
  \<open>QueryParser.analyze_intent\<close>: the whole body is one \<open>try\<close> block whose handler
  returns the default intent, so the result is never an exception. A reply
  without \<open>query_type\<close> raises \<open>KeyError\<close> at the first log line; an unknown
  \<open>query_type\<close> becomes \<open>GENERAL\<close>.
\<close>

definition qp_analyze_intent ::
  "env \<Rightarrow> string \<Rightarrow> world \<Rightarrow> (error + IntentAnalysis) \<times> world" where
  "qp_analyze_intent e q w =
     (let w1 = record_call (IntentModel q) w in
      case intent_chain e q of
        Inl err \<Rightarrow> (Inr default_intent, w1)
      | Inr intent_result \<Rightarrow>
          (case raw_query_type intent_result of
             None \<Rightarrow> (Inr default_intent, w1)
           | Some v \<Rightarrow>
               let query_type_enum =
                     (case QueryType_of_value v of Some t \<Rightarrow> t | None \<Rightarrow> GENERAL)
               in (Inr \<lparr>query_type = query_type_enum,
                         companies = raw_companies intent_result,
                         products = raw_products intent_result,
                         people = raw_people intent_result,
                         attributes = raw_attributes intent_result,
                         time_constraints = raw_time_constraints intent_result\<rparr>, w1)))"

text \<open>\<open>_format_retrieved_data\<close>, on the dict given as its list of entries.\<close>

definition format_retrieved_data :: "(string \<times> item list) list \<Rightarrow> string" where
  "format_retrieved_data retrieved =
     str_join [CHR 0x0A, CHR 0x0A]
       (concat (map (\<lambda>(src, data_list).
          if src = ''combined'' then []
          else map (\<lambda>it. ''Source: '' @ src @ [CHR 0x0A] @ ''Content: '' @ take 500 (content it))
                 data_list) retrieved))"

definition ambiguity_fallback :: AmbiguityCheck where
  "ambiguity_fallback =
     \<lparr>is_ambiguous = False, clarification_message = None, possible_interpretations = None,
      ac_confidence_score = 0.5\<rparr>"

text \<open>
  \<open>QueryParser.check_ambiguity\<close>: again one \<open>try\<close> block; its handler returns
  \<open>AmbiguityCheck(is_ambiguous=False, confidence_score=0.5)\<close>.
\<close>

definition qp_check_ambiguity ::
  "env \<Rightarrow> string \<Rightarrow> (string \<times> item list) list \<Rightarrow> world \<Rightarrow> (error + AmbiguityCheck) \<times> world" where
  "qp_check_ambiguity e q retrieved w =
     (let formatted_data = format_retrieved_data retrieved;
          w1 = record_call (AmbiguityModel q formatted_data) w
      in case ambiguity_chain e q formatted_data of
           Inl err \<Rightarrow> (Inr ambiguity_fallback, w1)
         | Inr ambiguity_result \<Rightarrow>
             (case mk_AmbiguityCheck (raw_is_ambiguous ambiguity_result)
                     (raw_clarification_message ambiguity_result)
                     (raw_possible_interpretations ambiguity_result)
                     (raw_confidence_score ambiguity_result) of
                Inl err \<Rightarrow> (Inr ambiguity_fallback, w1)
              | Inr chk \<Rightarrow> (Inr chk, w1)))"

section \<open>The evaluator and the response synthesiser (\<open>app/services/evaluator.py\<close>)\<close>

record QueryAnalysis =
  intent_analysis :: IntentAnalysis
  qa_ambiguity_check :: "AmbiguityCheck option"
  original_query :: string
  qa_requires_clarification :: bool

text \<open>The dict \<open>{"wikipedia": ..., "tavily": ..., "combined": ...}\<close>.\<close>

record retrieved_data =
  wikipedia :: "item list"
  tavily :: "item list"
  combined :: "item list"

fun format_data_for_evaluation :: "item list \<Rightarrow> string list" where
  "format_data_for_evaluation [] = []"
| "format_data_for_evaluation (it # rest) =
     (let c = strip (content it) in
      if c \<noteq> [] then (''Source('' @ source it @ ''):'' @ [CHR 0x0A] @ take 500 c)
                        # format_data_for_evaluation rest
      else format_data_for_evaluation rest)"

definition evaluation_input_of :: "QueryAnalysis \<Rightarrow> item list \<Rightarrow> evaluation_input" where
  "evaluation_input_of query_analysis combined_data =
     (let formatted_data = str_join [CHR 0x0A, CHR 0x0A] (format_data_for_evaluation combined_data);
          cs = str_join '', '' (companies (intent_analysis query_analysis))
      in \<lparr>ei_query = original_query query_analysis,
          ei_query_type = QueryType_value (query_type (intent_analysis query_analysis)),
          ei_companies = (if cs \<noteq> [] then cs else ''Not specified''),
          ei_data = formatted_data\<rparr>)"

text \<open>
  \<open>DataEvaluator.evaluate_data\<close>. Its handler logs and raises again, so every
  exception of the body is the function's result.
\<close>

definition evaluate_data ::
  "env \<Rightarrow> QueryAnalysis \<Rightarrow> retrieved_data \<Rightarrow> world \<Rightarrow> (error + ValidationResult) \<times> world" where
  "evaluate_data e query_analysis rd w =
     (let combined_data = combined rd in
      if combined_data = []
      then (mk_ValidationResult False 0.0 [''No data retrieved'']
              \<lparr>key_findings = [], summary = ''No data available for evaluation'',
               supporting_sources = []\<rparr>, w)
      else
        let evaluation_input = evaluation_input_of query_analysis combined_data;
            w1 = record_call (EvaluatorModel evaluation_input) w
        in (case evaluation_chain e evaluation_input of
              Inl err \<Rightarrow> (Inl err, w1)
            | Inr reply \<Rightarrow>
                (case parse_EvaluationOutput reply of
                   Inl err \<Rightarrow> (Inl err, w1)
                 | Inr evaluation \<Rightarrow>
                     (mk_ValidationResult (eo_confidence_score evaluation \<ge> 0.7)
                        (eo_confidence_score evaluation)
                        (eo_missing_information evaluation)
                        \<lparr>key_findings = main_points evaluation,
                         summary = eo_summary evaluation,
                         supporting_sources = []\<rparr>, w1))))"

text \<open>
  The three substitutions of the news branch. \<open>sub_brackets\<close> is
  \<open>re.sub(r'\[.*?\]', '', s)\<close>: from an opening bracket to the first closing
  one, when no line break stands between them (\<open>closes\<close>); the flag says
  whether the scan is inside such a match.
\<close>

fun closes :: "string \<Rightarrow> bool" where
  "closes [] = False"
| "closes (c # cs) = (if c = CHR '']'' then True else if c = CHR 0x0A then False else closes cs)"

fun sub_brackets_from :: "bool \<Rightarrow> string \<Rightarrow> string" where
  "sub_brackets_from inside [] = []"
| "sub_brackets_from False (c # cs) =
     (if c = CHR ''['' \<and> closes cs then sub_brackets_from True cs
      else c # sub_brackets_from False cs)"
| "sub_brackets_from True (c # cs) =
     (if c = CHR '']'' then sub_brackets_from False cs else sub_brackets_from True cs)"

definition sub_brackets :: "string \<Rightarrow> string" where
  "sub_brackets s = sub_brackets_from False s"

text \<open>\<open>remove_all lit s\<close> is \<open>re.sub\<close> of the literal text \<open>lit\<close> by nothing.\<close>

function remove_all :: "string \<Rightarrow> string \<Rightarrow> string" where
  "remove_all lit [] = []"
| "remove_all lit (c # cs) =
     (if lit \<noteq> [] \<and> startswith (c # cs) lit
      then remove_all lit (drop (length lit) (c # cs))
      else c # remove_all lit cs)"
  by pat_completeness auto
termination
  by (relation "measure (\<lambda>(lit, s). length s)") auto

text \<open>\<open>re.sub(r'\.{2,}', '.', s)\<close>: a run of full stops becomes one.\<close>

fun collapse_dots :: "string \<Rightarrow> string" where
  "collapse_dots [] = []"
| "collapse_dots [c] = [c]"
| "collapse_dots (c # d # cs) =
     (if c = CHR ''.'' \<and> d = CHR ''.'' then collapse_dots (d # cs)
      else c # collapse_dots (d # cs))"

definition is_sentence_end :: "char \<Rightarrow> bool" where
  "is_sentence_end c = (c = CHR ''.'' \<or> c = CHR ''!'' \<or> c = CHR ''?'')"

text \<open>Lines 150 to 158: the cleaned content of an item.\<close>

definition clean_content :: "string \<Rightarrow> string" where
  "clean_content raw =
     (let c1 = sub_brackets raw;
          c2 = remove_all ''(Opens in new window)'' c1;
          c3 = collapse_dots c2;
          c4 = str_join '' '' (split_ws c3)
      in if length c4 > 200
         then (let first_sentence = takeWhile (\<lambda>c. \<not> is_sentence_end c) c4
               in if first_sentence \<noteq> [] then first_sentence @ ''.'' else c4)
         else c4)"

text \<open>
  The bullet prefix: three characters in the source file, one of them beyond
  U+00FF, written here as the seven bytes the file holds.
\<close>

definition bullet :: string where
  "bullet = [CHR 0xC3, CHR 0xA2, CHR 0xE2, CHR 0x82, CHR 0xAC, CHR 0xC2, CHR 0xA2]"

definition news_item :: "string \<Rightarrow> item \<Rightarrow> string" where
  "news_item c it =
     (let base = bullet @ '' '' @ c in
      case url it of
        Some u \<Rightarrow> if u \<noteq> [] then base @ '' (Source: '' @ source it @ '', '' @ u @ '')''
                  else if source it \<noteq> [] then base @ '' (Source: '' @ source it @ '')''
                  else base
      | None \<Rightarrow> if source it \<noteq> [] then base @ '' (Source: '' @ source it @ '')'' else base)"

text \<open>
  The loop over the combined evidence: \<open>seen_content\<close> is the set of cleaned
  contents already emitted, the result is \<open>news_items\<close> in the order of the
  appends.
\<close>

fun news_loop :: "item list \<Rightarrow> string set \<Rightarrow> string list" where
  "news_loop [] seen_content = []"
| "news_loop (it # rest) seen_content =
     (if content it = [] then news_loop rest seen_content
      else
        let c = clean_content (content it) in
        if length c < 20 \<or> c \<in> seen_content then news_loop rest seen_content
        else news_item c it # news_loop rest (insert c seen_content))"

definition news_digest :: "item list \<Rightarrow> string" where
  "news_digest combined_data =
     (let news_items = news_loop combined_data {} in
      if news_items \<noteq> []
      then ''Latest news:'' @ [CHR 0x0A, CHR 0x0A] @ str_join [CHR 0x0A, CHR 0x0A] (take 3 news_items)
      else ''No recent news found for this query.'')"

text \<open>\<open>s.rsplit('.', 1)[0]\<close>: what stands before the last full stop, or all of \<open>s\<close>.\<close>

definition rsplit_dot_first :: "string \<Rightarrow> string" where
  "rsplit_dot_first s =
     (if CHR ''.'' \<in> set s then rev (tl (dropWhile (\<lambda>c. c \<noteq> CHR ''.'') (rev s))) else s)"

definition main_fact_of :: "ValidationResult \<Rightarrow> item list \<Rightarrow> string" where
  "main_fact_of validation_result combined_data =
     (case key_findings (validation_details validation_result) of
        f # _ \<Rightarrow> strip f
      | [] \<Rightarrow>
          (case combined_data of
             [] \<Rightarrow> []
           | it # _ \<Rightarrow>
               let main_fact = strip (content it) in
               if length main_fact > 200 then rsplit_dot_first (take 200 main_fact) @ ''.''
               else main_fact))"

text \<open>
  \<open>_format_final_response\<close>. The citation joins a Python set, whose iteration
  order is the environment's.
\<close>

definition format_final_response ::
  "env \<Rightarrow> ValidationResult option \<Rightarrow> retrieved_data \<Rightarrow> string" where
  "format_final_response e validation_result rd =
     (case validation_result of
        None \<Rightarrow> ''I apologize, but I couldn't find enough reliable information to answer your question accurately.''
      | Some v \<Rightarrow>
          if \<not> is_valid v
          then ''I apologize, but I couldn't find enough reliable information to answer your question accurately.''
          else
            let combined_data = combined rd in
            if combined_data = [] then ''No relevant information found.''
            else if list_ex (\<lambda>it. contains (lower (query it)) ''news'') combined_data
            then news_digest combined_data
            else
              let main_fact = main_fact_of v combined_data;
                  sources = set_order e (remdups (filter (\<lambda>s. s \<noteq> []) (map source (take 2 combined_data))));
                  source_citation =
                    (if sources \<noteq> [] then '' (Source: '' @ str_join '', '' sources @ '')'' else []);
                  resp = (if endswith_char main_fact CHR ''.'' then main_fact else main_fact @ ''.'')
              in resp @ source_citation)"

section \<open>The workflow (\<open>app/core/workflow.py\<close>)\<close>

record WorkflowState =
  state_query :: string
  intent :: "IntentAnalysis option"
  ambiguity_check :: "AmbiguityCheck option"
  wiki_results :: "retrieval option"
  tavily_results :: "retrieval option"
  evaluation :: "ValidationResult option"
  state_response :: "QueryResponse option"
  requires_clarification :: bool

text \<open>
  A node returns a dict of the fields it sets; the graph writes them into the
  state. An entry whose value is \<open>None\<close> is written like any other.
\<close>

datatype update =
    SetIntent "IntentAnalysis option"
  | SetAmbiguityCheck "AmbiguityCheck option"
  | SetRequiresClarification bool
  | SetWikiResults "retrieval option"
  | SetTavilyResults "retrieval option"
  | SetEvaluation "ValidationResult option"
  | SetResponse "QueryResponse option"

fun apply_update :: "update \<Rightarrow> WorkflowState \<Rightarrow> WorkflowState" where
  "apply_update (SetIntent v) s = s\<lparr>intent := v\<rparr>"
| "apply_update (SetAmbiguityCheck v) s = s\<lparr>ambiguity_check := v\<rparr>"
| "apply_update (SetRequiresClarification v) s = s\<lparr>requires_clarification := v\<rparr>"
| "apply_update (SetWikiResults v) s = s\<lparr>wiki_results := v\<rparr>"
| "apply_update (SetTavilyResults v) s = s\<lparr>tavily_results := v\<rparr>"
| "apply_update (SetEvaluation v) s = s\<lparr>evaluation := v\<rparr>"
| "apply_update (SetResponse v) s = s\<lparr>state_response := v\<rparr>"

definition apply_updates :: "update list \<Rightarrow> WorkflowState \<Rightarrow> WorkflowState" where
  "apply_updates us s = fold apply_update us s"

definition initial_state :: "string \<Rightarrow> WorkflowState" where
  "initial_state q =
     \<lparr>state_query = q, intent = None, ambiguity_check = None, wiki_results = None,
      tavily_results = None, evaluation = None, state_response = None,
      requires_clarification = False\<rparr>"

text \<open>\<open>r.get("results", []) if r else []\<close>.\<close>

definition results_of :: "retrieval option \<Rightarrow> item list" where
  "results_of r = (case r of None \<Rightarrow> [] | Some d \<Rightarrow> results d)"

definition clarification :: "string \<Rightarrow> AmbiguityCheck" where
  "clarification msg =
     \<lparr>is_ambiguous = True, clarification_message = Some msg,
      possible_interpretations = None, ac_confidence_score = 0.0\<rparr>"

definition invalid_result :: "string \<Rightarrow> ValidationResult" where
  "invalid_result msg =
     \<lparr>is_valid = False, vr_confidence_score = 0.0, missing_information = [msg],
      validation_details = default_details\<rparr>"

text \<open>
  The nodes, each with the handler of its \<open>try\<close> block. Two nodes bear the name
  of the service function they call, \<open>retrieve_tavily_data\<close> and \<open>evaluate_data\<close>;
  here they are \<open>retrieve_tavily_data_node\<close> and \<open>evaluate_data_node\<close>.
\<close>

definition analyze_intent :: "env \<Rightarrow> WorkflowState \<Rightarrow> world \<Rightarrow> update list \<times> world" where
  "analyze_intent e s w =
     (case qp_analyze_intent e (state_query s) w of
        (Inr i, w1) \<Rightarrow>
          ([SetIntent (Some i), SetAmbiguityCheck None, SetRequiresClarification False], w1)
      | (Inl err, w1) \<Rightarrow>
          ([SetIntent None,
            SetAmbiguityCheck (Some (clarification ''Failed to analyze query intent'')),
            SetRequiresClarification True], w1))"

definition check_ambiguity :: "env \<Rightarrow> WorkflowState \<Rightarrow> world \<Rightarrow> update list \<times> world" where
  "check_ambiguity e s w =
     (if intent s = None
      then ([SetRequiresClarification True,
             SetAmbiguityCheck (Some (clarification ''Could not determine query intent''))], w)
      else
        (case qp_check_ambiguity e (state_query s)
                [(''wiki'', results_of (wiki_results s)),
                 (''tavily'', results_of (tavily_results s))] w of
           (Inr chk, w1) \<Rightarrow>
             ([SetAmbiguityCheck (Some chk), SetRequiresClarification (is_ambiguous chk)], w1)
         | (Inl err, w1) \<Rightarrow>
             ([SetRequiresClarification True,
               SetAmbiguityCheck (Some (clarification ''Error checking query ambiguity''))], w1)))"

definition retrieve_wiki_data :: "env \<Rightarrow> WorkflowState \<Rightarrow> world \<Rightarrow> update list \<times> world" where
  "retrieve_wiki_data e s w =
     (case intent s of
        None \<Rightarrow> ([SetWikiResults None], w)
      | Some i \<Rightarrow>
          if requires_clarification s then ([SetWikiResults None], w)
          else
            (case retrieve_wikipedia_data e i w of
               (Inr wiki_data, w1) \<Rightarrow> ([SetWikiResults (Some wiki_data)], w1)
             | (Inl err, w1) \<Rightarrow> ([SetWikiResults (Some (empty_retrieval ''Wikipedia''))], w1)))"

definition retrieve_tavily_data_node :: "env \<Rightarrow> WorkflowState \<Rightarrow> world \<Rightarrow> update list \<times> world" where
  "retrieve_tavily_data_node e s w =
     (case intent s of
        None \<Rightarrow> ([SetTavilyResults None], w)
      | Some i \<Rightarrow>
          if requires_clarification s then ([SetTavilyResults None], w)
          else
            (case retrieve_tavily_data e i w of
               (Inr tavily_data, w1) \<Rightarrow> ([SetTavilyResults (Some tavily_data)], w1)
             | (Inl err, w1) \<Rightarrow> ([SetTavilyResults (Some (empty_retrieval ''Tavily''))], w1)))"

definition combined_data_of :: "WorkflowState \<Rightarrow> retrieved_data" where
  "combined_data_of s =
     \<lparr>wikipedia = results_of (wiki_results s), tavily = results_of (tavily_results s),
      combined = results_of (wiki_results s) @ results_of (tavily_results s)\<rparr>"

text \<open>
  The \<open>evaluate_results\<close> node. \<open>QueryAnalysis(intent_analysis=None, ...)\<close> does
  not validate, like every other exception of the \<open>try\<close> block it ends in the
  handler.
\<close>

definition evaluate_data_node :: "env \<Rightarrow> WorkflowState \<Rightarrow> world \<Rightarrow> update list \<times> world" where
  "evaluate_data_node e s w =
     (if requires_clarification s
      then ([SetEvaluation (Some (invalid_result ''Query requires clarification''))], w)
      else
        (case intent s of
           None \<Rightarrow> ([SetEvaluation (Some (invalid_result ''Error evaluating data''))], w)
         | Some i \<Rightarrow>
             let query_analysis =
                   \<lparr>intent_analysis = i, qa_ambiguity_check = ambiguity_check s,
                    original_query = state_query s,
                    qa_requires_clarification = requires_clarification s\<rparr>
             in (case evaluate_data e query_analysis (combined_data_of s) w of
                   (Inr ev, w1) \<Rightarrow> ([SetEvaluation (Some ev)], w1)
                 | (Inl err, w1) \<Rightarrow>
                     ([SetEvaluation (Some (invalid_result ''Error evaluating data''))], w1))))"

definition clarification_msg_of :: "WorkflowState \<Rightarrow> string" where
  "clarification_msg_of s =
     (case ambiguity_check s of
        None \<Rightarrow> ''Please clarify your query''
      | Some a \<Rightarrow>
          (case clarification_message a of
             None \<Rightarrow> ''Please clarify your query''
           | Some m \<Rightarrow> if m \<noteq> [] then m else ''Please clarify your query''))"

text \<open>The body of \<open>generate_response\<close>'s \<open>try\<close> block, and the node with its handler.\<close>

definition generate_response_body :: "env \<Rightarrow> WorkflowState \<Rightarrow> error + QueryResponse" where
  "generate_response_body e s =
     (if requires_clarification s then mk_QueryResponse (clarification_msg_of s) 0.0
      else
        (case evaluation s of
           None \<Rightarrow> mk_QueryResponse
                     ''Could not find enough reliable information to answer your query'' 0.0
         | Some ev \<Rightarrow>
             if \<not> is_valid ev
             then mk_QueryResponse
                    ''Could not find enough reliable information to answer your query'' 0.0
             else mk_QueryResponse (format_final_response e (Some ev) (combined_data_of s))
                    (vr_confidence_score ev)))"

definition generate_response :: "env \<Rightarrow> WorkflowState \<Rightarrow> update list" where
  "generate_response e s =
     (case generate_response_body e s of
        Inr r \<Rightarrow> [SetResponse (Some r)]
      | Inl err \<Rightarrow>
          [SetResponse (Some \<lparr>response = ''An error occurred while generating the response'',
                             qr_confidence_score = 0.0\<rparr>)])"

text \<open>
  The two retrieval nodes run in one step of the graph, both on the state
  \<open>check_ambiguity\<close> left, and their updates are written together. Neither
  suspends between its cache lookup and its provider call, so the calls of one
  node come before the calls of the other; the environment says which node is
  first.
\<close>

definition retrieve_both ::
  "env \<Rightarrow> WorkflowState \<Rightarrow> world \<Rightarrow> update list \<times> world" where
  "retrieve_both e s w =
     (if tavily_first e
      then (case retrieve_tavily_data_node e s w of (ut, wa) \<Rightarrow>
            case retrieve_wiki_data e s wa of (uw, wb) \<Rightarrow> (uw @ ut, wb))
      else (case retrieve_wiki_data e s w of (uw, wa) \<Rightarrow>
            case retrieve_tavily_data_node e s wa of (ut, wb) \<Rightarrow> (uw @ ut, wb)))"

text \<open>
  The compiled graph: \<open>analyze_intent\<close>, \<open>check_ambiguity\<close>, the two retrieval
  nodes, then \<open>evaluate_results\<close> once both have returned, then
  \<open>generate_response\<close>.
\<close>

definition graph_ainvoke :: "env \<Rightarrow> WorkflowState \<Rightarrow> world \<Rightarrow> WorkflowState \<times> world" where
  "graph_ainvoke e s0 w0 =
     (case analyze_intent e s0 w0 of (u1, w1) \<Rightarrow>
      let s1 = apply_updates u1 s0 in
      case check_ambiguity e s1 w1 of (u2, w2) \<Rightarrow>
      let s2 = apply_updates u2 s1 in
      case retrieve_both e s2 w2 of (u3, w3) \<Rightarrow>
      let s3 = apply_updates u3 s2 in
      case evaluate_data_node e s3 w3 of (u5, w5) \<Rightarrow>
      let s4 = apply_updates u5 s3 in
      (apply_updates (generate_response e s4) s4, w5))"

text \<open>The argument of \<open>process_query\<close>: a string, or any other object.\<close>

datatype py_value = PyStr string | PyOther

definition process_query_body ::
  "env \<Rightarrow> py_value \<Rightarrow> world \<Rightarrow> (error + QueryResponse) \<times> world" where
  "process_query_body e arg w =
     (case arg of
        PyOther \<Rightarrow> (Inl ValueError, w)
      | PyStr q \<Rightarrow>
          (case graph_ainvoke e (initial_state q) w of
             (final_state, w1) \<Rightarrow>
               (case state_response final_state of
                  Some r \<Rightarrow> (Inr r, w1)
                | None \<Rightarrow> (mk_QueryResponse ''Failed to process query'' 0.0, w1))))"

text \<open>\<open>process_query\<close>: the body, and the handler that answers for any exception.\<close>

definition process_query ::
  "env \<Rightarrow> py_value \<Rightarrow> world \<Rightarrow> (error + QueryResponse) \<times> world" where
  "process_query e arg w =
     (case process_query_body e arg w of
        (Inr r, w1) \<Rightarrow> (Inr r, w1)
      | (Inl err, w1) \<Rightarrow>
          (mk_QueryResponse ''An error occurred while processing your query'' 0.0, w1))"

section \<open>Sample inputs\<close>

text \<open>
  Concrete collaborators and inputs for the examples below. The environment
  \<open>sample_env\<close> answers a location question about one company; its digest
  function is a stand-in (the text itself), which no example depends on.
\<close>

definition sample_clock :: clock where
  "sample_clock = \<lparr>epoch_seconds = 1704151800, utc_offset = 0\<rparr>"

definition sample_reply :: "real \<Rightarrow> EvaluationOutput" where
  "sample_reply c =
     \<lparr>main_points = [''OpenAI is headquartered in San Francisco''], eo_missing_information = [],
      eo_confidence_score = c, eo_summary = ''Headquarters found'', source_quality = []\<rparr>"

definition sample_env :: env where
  "sample_env =
     \<lparr>intent_chain = (\<lambda>q. Inr \<lparr>raw_query_type = Some ''location'', raw_companies = [''OpenAI''],
                                raw_products = [], raw_people = [], raw_attributes = [],
                                raw_time_constraints = None\<rparr>),
      ambiguity_chain = (\<lambda>q d. Inr \<lparr>raw_is_ambiguous = False, raw_clarification_message = None,
                                     raw_possible_interpretations = Some [],
                                     raw_confidence_score = 0.9\<rparr>),
      evaluation_chain = (\<lambda>i. Inr (sample_reply 0.85)),
      wikipedia_arun = (\<lambda>q. Inr ''OpenAI is based in San Francisco.''),
      tavily_arun = (\<lambda>q. Inr (TavilyList [TavilyDict (Some ''OpenAI HQ: San Francisco'')
                                             (Some ''https://example.org/openai'')])),
      sha256_hexdigest = (\<lambda>t. t),
      set_order = (\<lambda>xs. xs),
      now = sample_clock,
      cache_enabled = True,
      redis_up = True,
      tavily_first = False\<rparr>"

definition sample_intent :: IntentAnalysis where
  "sample_intent =
     \<lparr>query_type = LOCATION, companies = [''OpenAI''], products = [], people = [],
      attributes = [], time_constraints = None\<rparr>"

definition sample_analysis :: QueryAnalysis where
  "sample_analysis =
     \<lparr>intent_analysis = sample_intent, qa_ambiguity_check = None,
      original_query = ''Where is OpenAI headquartered?'', qa_requires_clarification = False\<rparr>"

definition sample_item :: item where
  "sample_item =
     \<lparr>content = ''OpenAI is based in San Francisco.'', source = ''Wikipedia'',
      url = None, query = ''OpenAI headquarters location company''\<rparr>"

definition sample_data :: retrieved_data where
  "sample_data = \<lparr>wikipedia = [sample_item], tavily = [], combined = [sample_item]\<rparr>"

definition empty_world :: world where
  "empty_world = \<lparr>redis = (\<lambda>k. None), calls = []\<rparr>"

text \<open>The state of a run whose intent has been classified.\<close>

definition classified_state :: WorkflowState where
  "classified_state = (initial_state ''Tell me about Midas'')\<lparr>intent := Some sample_intent\<rparr>"

text \<open>An environment in which every collaborator fails, and one whose checker asks back.\<close>

definition failing_env :: env where
  "failing_env =
     \<lparr>intent_chain = (\<lambda>q. Inl CollaboratorError),
      ambiguity_chain = (\<lambda>q d. Inl CollaboratorError),
      evaluation_chain = (\<lambda>i. Inl CollaboratorError),
      wikipedia_arun = (\<lambda>q. Inl CollaboratorError),
      tavily_arun = (\<lambda>q. Inl CollaboratorError),
      sha256_hexdigest = (\<lambda>t. t),
      set_order = (\<lambda>xs. xs),
      now = sample_clock,
      cache_enabled = True,
      redis_up = False,
      tavily_first = True\<rparr>"

definition ambiguous_env :: env where
  "ambiguous_env =
     sample_env\<lparr>ambiguity_chain := \<lambda>q d.
       Inr \<lparr>raw_is_ambiguous = True,
            raw_clarification_message = Some ''Did you mean company X or Y?'',
            raw_possible_interpretations = Some [''X'', ''Y''],
            raw_confidence_score = 0.8\<rparr>\<rparr>"

text \<open>The expiries of the \<open>SETEX\<close> calls a world has recorded.\<close>

definition setex_ttls :: "world \<Rightarrow> int list" where
  "setex_ttls w = concat (map (\<lambda>c. case c of RedisSetex k t \<Rightarrow> [t] | _ \<Rightarrow> []) (calls w))"

text \<open>
  A process five hours west of UTC, at 23:30 UTC and 00:30 UTC of the next UTC
  day (18:30 and 19:30 of one local day), and a day after the first instant.
\<close>

definition new_york_evening :: clock where
  "new_york_evening = \<lparr>epoch_seconds = 1704151800, utc_offset = - 18000\<rparr>"

definition new_york_later :: clock where
  "new_york_later = \<lparr>epoch_seconds = 1704155400, utc_offset = - 18000\<rparr>"

definition new_york_next_day :: clock where
  "new_york_next_day = \<lparr>epoch_seconds = 1704238200, utc_offset = - 18000\<rparr>"

text \<open>Two news items that differ in white space and bracketed notes only.\<close>

definition factory_news_a :: item where
  "factory_news_a =
     \<lparr>content = ''Tesla  announces [1] new factory in Texas today'', source = ''Tavily'',
      url = Some ''https://example.org/a'', query = ''latest news about Tesla after:2023-12-25''\<rparr>"

definition factory_news_b :: item where
  "factory_news_b =
     \<lparr>content = ''Tesla announces new   factory in Texas [note] today'', source = ''Tavily'',
      url = Some ''https://example.org/b'', query = ''latest news about Tesla after:2023-12-25''\<rparr>"

text \<open>An item whose cleaned content is shorter than 20 characters.\<close>

definition short_news :: item where
  "short_news =
     \<lparr>content = ''Tesla   news'', source = ''Tavily'', url = None,
      query = ''latest news about Tesla after:2023-12-25''\<rparr>"

section \<open>The result cache: expiry and keys\<close>

lemma calculate_ttl_general: "calculate_ttl ''general'' = 86400"
  by (simp add: calculate_ttl_def TTL_MAPPING_def CacheTTL_DEFAULT_def)

text \<open>
  C6, as stated, fails: a news entry stored with \<open>ttl\<close> omitted expires after
  86400 seconds, not after the 3600 seconds the table gives the news category.
\<close>

theorem set_cached_data_news_ttl_counterexample:
  "fst (set_cached_data sample_env ''latest news about Tesla after:2023-12-25'' ''Tavily''
          (empty_retrieval ''Tavily'') None empty_world) = Inr True \<and>
   setex_ttls (snd (set_cached_data sample_env ''latest news about Tesla after:2023-12-25''
          ''Tavily'' (empty_retrieval ''Tavily'') None empty_world)) = [86400] \<and>
   calculate_ttl (CacheQueryType_value CQ_NEWS) = 3600"
  by code_simp

text \<open>
  C6 (amended). \<open>set_cached_data\<close> takes no category. With \<open>ttl\<close> omitted, and the
  cache enabled and reachable, it stores the entry with the expiry the table
  gives \<open>GENERAL\<close>, 86400 seconds, whatever the query was about. The table
  itself, read through \<open>_calculate_ttl\<close>, holds 3600 for news, 604800 for
  location, 43200 for business, 21600 for investment and 86400 for general.
\<close>

theorem set_cached_data_default_ttl:
  assumes "cache_enabled e" and "redis_up e"
  shows "set_cached_data e key src data None w =
           (Inr True,
            (record_call (RedisSetex (generate_cache_key e key src) 86400) w)
              \<lparr>redis := (redis w)(generate_cache_key e key src \<mapsto> (Json (JResults data), 86400))\<rparr>)
         \<and> calculate_ttl ''news'' = 3600 \<and> calculate_ttl ''location'' = 604800
         \<and> calculate_ttl ''business'' = 43200 \<and> calculate_ttl ''investment'' = 21600
         \<and> calculate_ttl ''general'' = 86400"
proof -
  have "set_cached_data e key src data None w =
           (Inr True,
            (record_call (RedisSetex (generate_cache_key e key src) 86400) w)
              \<lparr>redis := (redis w)(generate_cache_key e key src \<mapsto> (Json (JResults data), 86400))\<rparr>)"
    using assms
    by (simp add: set_cached_data_def calculate_ttl_general max_expiry_seconds_def Let_def
          record_call_def)
  moreover have "calculate_ttl ''news'' = 3600 \<and> calculate_ttl ''location'' = 604800
         \<and> calculate_ttl ''business'' = 43200 \<and> calculate_ttl ''investment'' = 21600
         \<and> calculate_ttl ''general'' = 86400"
    by (simp add: calculate_ttl_def TTL_MAPPING_def CacheTTL_DEFAULT_def CacheTTL_NEWS_def
          CacheTTL_LOCATION_def CacheTTL_BUSINESS_def CacheTTL_INVESTMENT_def)
  ultimately show ?thesis by blast
qed

theorem set_cached_data_default_ttl_witness:
  "cache_enabled sample_env \<and> redis_up sample_env \<and>
   redis (snd (set_cached_data sample_env ''Tesla headquarters current location'' ''Tavily''
                 (empty_retrieval ''Tavily'') None empty_world))
     (generate_cache_key sample_env ''Tesla headquarters current location'' ''Tavily'')
   = Some (Json (JResults (empty_retrieval ''Tavily'')), 86400)"
proof -
  have h1: "cache_enabled sample_env" and h2: "redis_up sample_env"
    by (simp_all add: sample_env_def)
  show ?thesis
    using h1 h2
      set_cached_data_default_ttl [OF h1 h2, of "''Tesla headquarters current location''"
        "''Tavily''" "empty_retrieval ''Tavily''" empty_world]
    by simp
qed

lemma key_content_marker:
  "has_recency_marker (strip (lower key)) \<Longrightarrow>
   key_content c key src = strip (lower key) @ '':'' @ src @ '':'' @ today c"
  by (simp add: key_content_def Let_def)

lemma key_content_no_marker:
  "\<not> has_recency_marker (strip (lower key)) \<Longrightarrow>
   key_content c key src = strip (lower key) @ '':'' @ src"
  by (simp add: key_content_def Let_def)

lemma key_content_same_day:
  "today ca = today cb \<Longrightarrow> key_content ca key src = key_content cb key src"
  by (simp add: key_content_def Let_def)

lemma generate_cache_key_now:
  "generate_cache_key (e\<lparr>now := c\<rparr>) key src =
     CachePrefix_COMPANY_INFO @ '':'' @ sha256_hexdigest e (key_content c key src)"
  by (simp add: generate_cache_key_def)

text \<open>
  C7, as stated, fails: the date in the key is the local date of
  \<open>datetime.now()\<close>, not the UTC date. In a process five hours west of UTC the
  instants 23:30 UTC and 00:30 UTC of the next day lie on two UTC dates, and
  the text hashed for \<open>("latest Tesla news", "web")\<close> is the same at both, so
  the key is the same.
\<close>

theorem cache_key_utc_date_counterexample:
  "has_recency_marker (strip (lower ''latest Tesla news'')) \<and>
   utc_today new_york_evening = ''2024-01-01'' \<and>
   utc_today new_york_later = ''2024-01-02'' \<and>
   key_content new_york_evening ''latest Tesla news'' ''web''
     = ''latest tesla news:web:2024-01-01'' \<and>
   key_content new_york_later ''latest Tesla news'' ''web''
     = ''latest tesla news:web:2024-01-01'' \<and>
   generate_cache_key (sample_env\<lparr>now := new_york_evening\<rparr>) ''latest Tesla news'' ''web''
     = generate_cache_key (sample_env\<lparr>now := new_york_later\<rparr>) ''latest Tesla news'' ''web''"
  by code_simp

text \<open>
  C7 (amended). For every logical key and source tag, and any two readings
  \<open>ca\<close>, \<open>cb\<close> of the process clock: if the key, lower-cased and stripped,
  contains "news", "latest" or "recent" and the local dates differ, the texts
  hashed differ, so the keys are equal only if SHA-256 gives both texts one
  digest; if it contains no marker the keys are equal; and on one local date
  the keys are equal.
\<close>

theorem cache_key_local_date:
  "(has_recency_marker (strip (lower key)) \<and> today ca \<noteq> today cb \<longrightarrow>
      key_content ca key src \<noteq> key_content cb key src \<and>
      (generate_cache_key (e\<lparr>now := ca\<rparr>) key src = generate_cache_key (e\<lparr>now := cb\<rparr>) key src
         \<longleftrightarrow> sha256_hexdigest e (key_content ca key src)
               = sha256_hexdigest e (key_content cb key src))) \<and>
   (\<not> has_recency_marker (strip (lower key)) \<longrightarrow>
      generate_cache_key (e\<lparr>now := ca\<rparr>) key src = generate_cache_key (e\<lparr>now := cb\<rparr>) key src) \<and>
   (today ca = today cb \<longrightarrow>
      generate_cache_key (e\<lparr>now := ca\<rparr>) key src = generate_cache_key (e\<lparr>now := cb\<rparr>) key src)"
proof (intro conjI impI)
  assume m: "has_recency_marker (strip (lower key)) \<and> today ca \<noteq> today cb"
  then show "key_content ca key src \<noteq> key_content cb key src"
    by (simp add: key_content_marker)
  show "generate_cache_key (e\<lparr>now := ca\<rparr>) key src = generate_cache_key (e\<lparr>now := cb\<rparr>) key src
         \<longleftrightarrow> sha256_hexdigest e (key_content ca key src)
               = sha256_hexdigest e (key_content cb key src)"
    by (simp add: generate_cache_key_now)
next
  assume "\<not> has_recency_marker (strip (lower key))"
  then show "generate_cache_key (e\<lparr>now := ca\<rparr>) key src
               = generate_cache_key (e\<lparr>now := cb\<rparr>) key src"
    by (simp add: generate_cache_key_now key_content_no_marker)
next
  assume "today ca = today cb"
  then show "generate_cache_key (e\<lparr>now := ca\<rparr>) key src
               = generate_cache_key (e\<lparr>now := cb\<rparr>) key src"
    by (simp add: generate_cache_key_now key_content_same_day [of ca cb])
qed

theorem cache_key_local_date_witness:
  "key_content new_york_evening ''latest Tesla news'' ''web''
     \<noteq> key_content new_york_next_day ''latest Tesla news'' ''web'' \<and>
   generate_cache_key (sample_env\<lparr>now := new_york_evening\<rparr>) ''Tesla headquarters'' ''web''
     = generate_cache_key (sample_env\<lparr>now := new_york_next_day\<rparr>) ''Tesla headquarters'' ''web'' \<and>
   generate_cache_key (sample_env\<lparr>now := new_york_evening\<rparr>) ''latest Tesla news'' ''web''
     = generate_cache_key (sample_env\<lparr>now := new_york_later\<rparr>) ''latest Tesla news'' ''web''"
proof -
  have h1: "has_recency_marker (strip (lower ''latest Tesla news'')) \<and>
            today new_york_evening \<noteq> today new_york_next_day"
    by code_simp
  have h2: "\<not> has_recency_marker (strip (lower ''Tesla headquarters''))"
    by code_simp
  have h3: "today new_york_evening = today new_york_later"
    by code_simp
  show ?thesis
    using h1 h2 h3
      cache_key_local_date [of "''latest Tesla news''" new_york_evening new_york_next_day
        "''web''" sample_env]
      cache_key_local_date [of "''Tesla headquarters''" new_york_evening new_york_next_day
        "''web''" sample_env]
      cache_key_local_date [of "''latest Tesla news''" new_york_evening new_york_later
        "''web''" sample_env]
    by blast
qed

section \<open>The evaluator\<close>

text \<open>
  C10. When the combined evidence is empty, \<open>evaluate_data\<close> returns the invalid
  verdict (not valid, confidence 0, "No data retrieved") and leaves the world
  as it was: no call is recorded, so the evaluator model is not invoked.
\<close>

theorem evaluate_data_no_evidence:
  assumes "combined rd = []"
  shows "evaluate_data e qa rd w =
           (Inr \<lparr>is_valid = False, vr_confidence_score = 0,
                 missing_information = [''No data retrieved''],
                 validation_details =
                   \<lparr>key_findings = [], summary = ''No data available for evaluation'',
                    supporting_sources = []\<rparr>\<rparr>, w)"
  using assms by (simp add: evaluate_data_def mk_ValidationResult_def in_unit_def)

theorem evaluate_data_no_evidence_witness:
  "combined (sample_data\<lparr>combined := []\<rparr>) = [] \<and>
   evaluate_data sample_env sample_analysis (sample_data\<lparr>combined := []\<rparr>) empty_world =
     (Inr \<lparr>is_valid = False, vr_confidence_score = 0,
           missing_information = [''No data retrieved''],
           validation_details =
             \<lparr>key_findings = [], summary = ''No data available for evaluation'',
              supporting_sources = []\<rparr>\<rparr>, empty_world) \<and>
   calls empty_world = []"
proof -
  have h: "combined (sample_data\<lparr>combined := []\<rparr>) = []" by simp
  show ?thesis
    using h evaluate_data_no_evidence [OF h, of sample_env sample_analysis empty_world]
    by (simp add: empty_world_def)
qed

lemma mk_ValidationResult_fields:
  "mk_ValidationResult b c ms d = Inr v \<Longrightarrow> is_valid v = b \<and> vr_confidence_score v = c"
  by (auto simp: mk_ValidationResult_def split: if_splits)

text \<open>
  C5. Every verdict \<open>evaluate_data\<close> returns is valid exactly when its
  confidence is at least 0.7. Confidences are real numbers here: the numbers
  the model's reply and the literal \<open>0.7\<close> denote.
\<close>

theorem evaluate_data_is_valid_iff:
  assumes "evaluate_data e qa rd w = (Inr v, w')"
  shows "is_valid v \<longleftrightarrow> vr_confidence_score v \<ge> 0.7"
proof (cases "combined rd = []")
  case True
  with assms show ?thesis
    by (auto simp: evaluate_data_def dest: mk_ValidationResult_fields)
next
  case False
  with assms show ?thesis
    by (auto simp: evaluate_data_def Let_def parse_EvaluationOutput_def
             split: sum.splits if_splits dest!: mk_ValidationResult_fields)
qed

text \<open>The boundary: a reply with confidence 0.7 is valid, one with 0.699 is not.\<close>

theorem evaluate_data_is_valid_iff_witness:
  "(\<exists>v w'. evaluate_data (sample_env\<lparr>evaluation_chain := \<lambda>i. Inr (sample_reply 0.7)\<rparr>)
              sample_analysis sample_data empty_world = (Inr v, w') \<and>
            vr_confidence_score v = 0.7 \<and> is_valid v) \<and>
   (\<exists>v w'. evaluate_data (sample_env\<lparr>evaluation_chain := \<lambda>i. Inr (sample_reply 0.699)\<rparr>)
              sample_analysis sample_data empty_world = (Inr v, w') \<and>
            vr_confidence_score v = 0.699 \<and> \<not> is_valid v)"
proof -
  obtain va wa where ra:
      "evaluate_data (sample_env\<lparr>evaluation_chain := \<lambda>i. Inr (sample_reply 0.7)\<rparr>)
         sample_analysis sample_data empty_world = (Inr va, wa)"
    and ca: "vr_confidence_score va = 0.7"
    by (simp add: evaluate_data_def sample_data_def sample_env_def sample_reply_def
          parse_EvaluationOutput_def mk_ValidationResult_def in_unit_def Let_def)
  obtain vb wb where rb:
      "evaluate_data (sample_env\<lparr>evaluation_chain := \<lambda>i. Inr (sample_reply 0.699)\<rparr>)
         sample_analysis sample_data empty_world = (Inr vb, wb)"
    and cb: "vr_confidence_score vb = 0.699"
    by (simp add: evaluate_data_def sample_data_def sample_env_def sample_reply_def
          parse_EvaluationOutput_def mk_ValidationResult_def in_unit_def Let_def)
  from evaluate_data_is_valid_iff [OF ra] ca have "is_valid va" by simp
  moreover from evaluate_data_is_valid_iff [OF rb] cb have "\<not> is_valid vb" by simp
  ultimately show ?thesis using ra rb ca cb by blast
qed

section \<open>The news digest\<close>

lemma clean_content_Nil: "clean_content [] = []"
  by (simp add: clean_content_def sub_brackets_def split_ws_def)

text \<open>An item the loop would skip can be taken out of the evidence.\<close>

lemma news_loop_skips:
  assumes "content b = [] \<or> length (clean_content (content b)) < 20 \<or>
           clean_content (content b) \<in> seen"
  shows "news_loop (ys @ b # zs) seen = news_loop (ys @ zs) seen"
  using assms
proof (induction ys arbitrary: seen)
  case Nil
  then show ?case by (auto simp: Let_def)
next
  case (Cons y ys)
  show ?case
  proof (cases "content y = [] \<or> length (clean_content (content y)) < 20 \<or>
                clean_content (content y) \<in> seen")
    case True
    then show ?thesis using Cons.IH [OF Cons.prems] by (auto simp: Let_def)
  next
    case False
    have "content b = [] \<or> length (clean_content (content b)) < 20 \<or>
          clean_content (content b) \<in> insert (clean_content (content y)) seen"
      using Cons.prems by auto
    from Cons.IH [OF this] False show ?thesis by (simp add: Let_def)
  qed
qed

lemma news_loop_duplicate:
  assumes "clean_content (content a) = clean_content (content b)"
  shows "news_loop (a # ys @ b # zs) seen = news_loop (a # ys @ zs) seen"
proof (cases "content a = [] \<or> length (clean_content (content a)) < 20 \<or>
              clean_content (content a) \<in> seen")
  case True
  have "length (clean_content (content b)) < 20" if "content a = []"
  proof -
    from that have "clean_content (content a) = []" by (simp add: clean_content_Nil)
    with assms have "clean_content (content b) = []" by simp
    then show ?thesis by simp
  qed
  with True assms have "content b = [] \<or> length (clean_content (content b)) < 20 \<or>
           clean_content (content b) \<in> seen" by auto
  from news_loop_skips [OF this] True show ?thesis by (auto simp: Let_def)
next
  case False
  have "content b = [] \<or> length (clean_content (content b)) < 20 \<or>
           clean_content (content b) \<in> insert (clean_content (content a)) seen"
    using assms by simp
  from news_loop_skips [OF this] False show ?thesis by (simp add: Let_def)
qed

text \<open>
  After the loop has run over \<open>xs\<close>, \<open>seen_content\<close> holds, besides what it
  held before, the cleaned contents of at least 20 characters found in \<open>xs\<close>.
\<close>

lemma news_loop_append:
  "news_loop (xs @ ys) seen =
     news_loop xs seen @
     news_loop ys (seen \<union> {c. 20 \<le> length c \<and> (\<exists>p \<in> set xs. clean_content (content p) = c)})"
proof (induction xs arbitrary: seen)
  case Nil
  show ?case by simp
next
  case (Cons x xs)
  let ?c = "clean_content (content x)"
  let ?E = "\<lambda>l. {c. 20 \<le> length c \<and> (\<exists>p \<in> set l. clean_content (content p) = c)}"
  show ?case
  proof (cases "content x = [] \<or> length ?c < 20")
    case True
    then have "\<not> 20 \<le> length ?c" by (auto simp: clean_content_Nil)
    then have "?E (x # xs) = ?E xs" by auto
    with True Cons.IH [of seen] show ?thesis by (auto simp: Let_def)
  next
    case False
    then have e: "?E (x # xs) = insert ?c (?E xs)" by auto
    show ?thesis
    proof (cases "?c \<in> seen")
      case True
      then have "seen \<union> ?E (x # xs) = seen \<union> ?E xs" using e by auto
      with True False Cons.IH [of seen] show ?thesis by (simp add: Let_def)
    next
      case notin: False
      have "insert ?c seen \<union> ?E xs = seen \<union> ?E (x # xs)" using e by auto
      with notin False Cons.IH [of "insert ?c seen"] show ?thesis by (simp add: Let_def)
    qed
  qed
qed

lemma news_loop_single:
  "news_loop [it] seen =
     (if 20 \<le> length (clean_content (content it)) \<and> clean_content (content it) \<notin> seen
      then [news_item (clean_content (content it)) it] else [])"
  by (auto simp: Let_def clean_content_Nil)

text \<open>
  What each item adds: one bullet when its cleaned content has at least 20
  characters and is the cleaned content of no earlier item, and nothing
  otherwise.
\<close>

lemma news_loop_snoc:
  "news_loop (pre @ [it]) seen = news_loop pre seen @
     (if 20 \<le> length (clean_content (content it)) \<and> clean_content (content it) \<notin> seen \<and>
         (\<forall>p \<in> set pre. clean_content (content p) \<noteq> clean_content (content it))
      then [news_item (clean_content (content it)) it] else [])"
proof -
  let ?c = "clean_content (content it)"
  have "(20 \<le> length ?c \<and>
         ?c \<notin> seen \<union> {c. 20 \<le> length c \<and> (\<exists>p \<in> set pre. clean_content (content p) = c)}) =
        (20 \<le> length ?c \<and> ?c \<notin> seen \<and>
           (\<forall>p \<in> set pre. clean_content (content p) \<noteq> ?c))"
    by auto
  then show ?thesis
    by (simp add: news_loop_append news_loop_single del: news_loop.simps)
qed

text \<open>One bullet for each cleaned content of at least 20 characters, and no more.\<close>

lemma news_loop_length:
  "length (news_loop items seen) =
     card ({c. 20 \<le> length c \<and> (\<exists>p \<in> set items. clean_content (content p) = c)} - seen)"
proof (induction items rule: rev_induct)
  case Nil
  show ?case by simp
next
  case (snoc it pre)
  let ?c = "clean_content (content it)"
  let ?E = "\<lambda>l. {c. 20 \<le> length c \<and> (\<exists>p \<in> set l. clean_content (content p) = c)}"
  have ec: "?E (pre @ [it]) = (if 20 \<le> length ?c then insert ?c (?E pre) else ?E pre)"
    by auto
  have "?E pre \<subseteq> (\<lambda>p. clean_content (content p)) ` set pre" by auto
  then have "finite (?E pre)" by (rule finite_subset) simp
  then have fin: "finite (?E pre - seen)" by simp
  show ?case
  proof (cases "20 \<le> length ?c \<and> ?c \<notin> seen \<and>
                (\<forall>p \<in> set pre. clean_content (content p) \<noteq> ?c)")
    case True
    then have notin: "?c \<notin> ?E pre - seen" by auto
    from True have "?E (pre @ [it]) - seen = insert ?c (?E pre - seen)"
      using ec by auto
    with notin fin True snoc.IH show ?thesis
      by (simp add: news_loop_snoc del: news_loop.simps)
  next
    case False
    have "?E (pre @ [it]) - seen = ?E pre - seen"
    proof (cases "20 \<le> length ?c")
      case long: True
      with False have "?c \<in> seen \<or> ?c \<in> ?E pre" by auto
      with long ec show ?thesis by auto
    next
      case short: False
      with ec show ?thesis by simp
    qed
    with False snoc.IH show ?thesis
      by (simp add: news_loop_snoc del: news_loop.simps)
  qed
qed

text \<open>
  C9. In the news branch the bullets are built item by item: an item adds one
  bullet when its cleaned content has at least 20 characters and no earlier
  item has the same cleaned content, and adds nothing otherwise. So the
  bullets are as many as the distinct cleaned contents of at least 20
  characters, any number of items with one cleaned content give one bullet at
  most, and the later of two such items can be left out without changing the
  bullets or the digest. The digest is the heading and the first three
  bullets, or the fixed sentence when there is none.
\<close>

theorem news_digest_dedup:
  "news_loop [] seen = [] \<and>
   news_loop (pre @ [it]) seen = news_loop pre seen @
     (if 20 \<le> length (clean_content (content it)) \<and> clean_content (content it) \<notin> seen \<and>
         (\<forall>p \<in> set pre. clean_content (content p) \<noteq> clean_content (content it))
      then [news_item (clean_content (content it)) it] else []) \<and>
   length (news_loop items {}) =
     card {c. 20 \<le> length c \<and> (\<exists>p \<in> set items. clean_content (content p) = c)} \<and>
   (clean_content (content a) = clean_content (content b) \<longrightarrow>
      news_loop (xs @ a # ys @ b # zs) seen = news_loop (xs @ a # ys @ zs) seen \<and>
      news_digest (xs @ a # ys @ b # zs) = news_digest (xs @ a # ys @ zs)) \<and>
   news_digest cd =
     (if news_loop cd {} = [] then ''No recent news found for this query.''
      else ''Latest news:'' @ [CHR 0x0A, CHR 0x0A] @
           str_join [CHR 0x0A, CHR 0x0A] (take 3 (news_loop cd {}))) \<and>
   length (take 3 (news_loop cd {})) \<le> 3"
proof (intro conjI impI)
  show "news_loop [] seen = []" by simp
next
  show "news_loop (pre @ [it]) seen = news_loop pre seen @
     (if 20 \<le> length (clean_content (content it)) \<and> clean_content (content it) \<notin> seen \<and>
         (\<forall>p \<in> set pre. clean_content (content p) \<noteq> clean_content (content it))
      then [news_item (clean_content (content it)) it] else [])"
    by (rule news_loop_snoc)
next
  show "length (news_loop items {}) =
     card {c. 20 \<le> length c \<and> (\<exists>p \<in> set items. clean_content (content p) = c)}"
    using news_loop_length [of items "{}"] by simp
next
  assume eq: "clean_content (content a) = clean_content (content b)"
  have loop: "news_loop (xs @ a # ys @ b # zs) sn = news_loop (xs @ a # ys @ zs) sn" for sn
  proof (induction xs arbitrary: sn)
    case Nil
    show ?case using news_loop_duplicate [OF eq] by simp
  next
    case (Cons x xs)
    show ?case by (simp add: Let_def Cons.IH)
  qed
  show "news_loop (xs @ a # ys @ b # zs) seen = news_loop (xs @ a # ys @ zs) seen"
    by (rule loop)
  show "news_digest (xs @ a # ys @ b # zs) = news_digest (xs @ a # ys @ zs)"
    by (simp add: news_digest_def loop)
next
  show "news_digest cd =
     (if news_loop cd {} = [] then ''No recent news found for this query.''
      else ''Latest news:'' @ [CHR 0x0A, CHR 0x0A] @
           str_join [CHR 0x0A, CHR 0x0A] (take 3 (news_loop cd {})))"
    by (simp add: news_digest_def Let_def)
next
  show "length (take 3 (news_loop cd {})) \<le> 3" by simp
qed

text \<open>
  Two items that differ in white space and bracketed notes only give the one
  bullet of the first; a short item gives none.
\<close>

theorem news_digest_dedup_witness:
  "content factory_news_a \<noteq> content factory_news_b \<and>
   clean_content (content factory_news_a) = ''Tesla announces new factory in Texas today'' \<and>
   clean_content (content factory_news_b) = ''Tesla announces new factory in Texas today'' \<and>
   news_loop [factory_news_a, factory_news_b] {}
     = [bullet @ '' Tesla announces new factory in Texas today''
          @ '' (Source: Tavily, https://example.org/a)''] \<and>
   news_digest [factory_news_a, factory_news_b] = news_digest [factory_news_a] \<and>
   news_loop [factory_news_a, short_news] {} = news_loop [factory_news_a] {}"
proof -
  have ca: "clean_content (content factory_news_a)
              = ''Tesla announces new factory in Texas today''"
    and cb: "clean_content (content factory_news_b)
              = ''Tesla announces new factory in Texas today''"
    and cs: "clean_content (content short_news) = ''Tesla news''"
    and d: "content factory_news_a \<noteq> content factory_news_b"
    by code_simp+
  have one: "news_loop [factory_news_a] {}
     = [bullet @ '' Tesla announces new factory in Texas today''
          @ '' (Source: Tavily, https://example.org/a)'']"
    by code_simp
  have "news_loop ([factory_news_a] @ [factory_news_b]) {} = news_loop [factory_news_a] {}"
    using news_digest_dedup [where pre = "[factory_news_a]" and it = factory_news_b
        and seen = "{}"] ca cb
    by simp
  moreover have "news_loop ([factory_news_a] @ [short_news]) {} = news_loop [factory_news_a] {}"
    using news_digest_dedup [where pre = "[factory_news_a]" and it = short_news
        and seen = "{}"] cs
    by simp
  moreover have "news_digest ([] @ factory_news_a # [] @ factory_news_b # [])
                   = news_digest ([] @ factory_news_a # [] @ [])"
    using news_digest_dedup [where a = factory_news_a and b = factory_news_b
        and xs = "[]" and ys = "[]" and zs = "[]"] ca cb
    by simp
  ultimately show ?thesis using ca cb d one by simp
qed

section \<open>The workflow stages\<close>

text \<open>
  C4, as stated, fails: a skipped retrieval stage writes \<open>None\<close> into its field,
  not an empty evidence list tagged with the source name.
\<close>

theorem retrieval_skip_counterexample:
  "intent (initial_state ''Tell me about Midas'') = None \<and>
   fst (retrieve_wiki_data sample_env (initial_state ''Tell me about Midas'') empty_world)
     = [SetWikiResults None] \<and>
   fst (retrieve_wiki_data sample_env (initial_state ''Tell me about Midas'') empty_world)
     \<noteq> [SetWikiResults (Some (empty_retrieval ''Wikipedia''))] \<and>
   wiki_results (apply_updates
       (fst (retrieve_wiki_data sample_env (initial_state ''Tell me about Midas'') empty_world))
       (initial_state ''Tell me about Midas'')) = None"
  by (simp add: retrieve_wiki_data_def initial_state_def apply_updates_def)

text \<open>
  C4 (amended). In every state whose intent is absent or which requires
  clarification, each of the two retrieval stages skips without any call: it
  writes \<open>None\<close> into its results field and leaves the world as it was. The
  later stages read a field that is \<open>None\<close> as the empty evidence list.
\<close>

theorem retrieval_skip:
  assumes "intent s = None \<or> requires_clarification s"
  shows "retrieve_wiki_data e s w = ([SetWikiResults None], w) \<and>
         retrieve_tavily_data_node e s w = ([SetTavilyResults None], w) \<and>
         results_of (wiki_results
           (apply_updates [SetWikiResults None, SetTavilyResults None] s)) = [] \<and>
         results_of (tavily_results
           (apply_updates [SetWikiResults None, SetTavilyResults None] s)) = []"
  using assms
  by (auto simp: retrieve_wiki_data_def retrieve_tavily_data_node_def results_of_def
        apply_updates_def split: option.splits)

theorem retrieval_skip_witness:
  "requires_clarification (classified_state\<lparr>requires_clarification := True\<rparr>) \<and>
   retrieve_wiki_data sample_env (classified_state\<lparr>requires_clarification := True\<rparr>) empty_world
     = ([SetWikiResults None], empty_world) \<and>
   retrieve_tavily_data_node sample_env (classified_state\<lparr>requires_clarification := True\<rparr>)
       empty_world
     = ([SetTavilyResults None], empty_world)"
proof -
  have h: "intent (classified_state\<lparr>requires_clarification := True\<rparr>) = None \<or>
           requires_clarification (classified_state\<lparr>requires_clarification := True\<rparr>)"
    by simp
  show ?thesis using retrieval_skip [OF h, of sample_env empty_world] by simp
qed

text \<open>
  \<open>QueryParser.check_ambiguity\<close> never raises, so the handler of the
  \<open>check_ambiguity\<close> stage, which would set \<open>requires_clarification = True\<close>,
  is never entered.
\<close>

lemma qp_check_ambiguity_returns:
  "\<exists>chk. fst (qp_check_ambiguity e q d w) = Inr chk"
  by (simp add: qp_check_ambiguity_def Let_def split: sum.split)

lemma check_ambiguity_never_reports_error:
  "fst (check_ambiguity e s w) \<noteq>
     [SetRequiresClarification True,
      SetAmbiguityCheck (Some (clarification ''Error checking query ambiguity''))]"
  by (simp add: check_ambiguity_def qp_check_ambiguity_def clarification_def Let_def
        split: sum.split)

text \<open>What the stage does whenever the intent is present and the model call raises.\<close>

lemma check_ambiguity_failure:
  assumes "intent s \<noteq> None"
    and "ambiguity_chain e (state_query s)
           (format_retrieved_data [(''wiki'', results_of (wiki_results s)),
                                   (''tavily'', results_of (tavily_results s))]) = Inl err"
  shows "check_ambiguity e s w =
           ([SetAmbiguityCheck (Some ambiguity_fallback), SetRequiresClarification False],
            record_call (AmbiguityModel (state_query s)
              (format_retrieved_data [(''wiki'', results_of (wiki_results s)),
                                      (''tavily'', results_of (tavily_results s))])) w)"
  using assms
  by (auto simp: check_ambiguity_def qp_check_ambiguity_def Let_def ambiguity_fallback_def)

text \<open>
  C3 asks that a failure of the ambiguity checker's model call degrades the
  pipeline to \<open>requires_clarification = True\<close>, which is what the handler of the
  \<open>check_ambiguity\<close> stage is written to do. The code does not get there:
  \<open>QueryParser.check_ambiguity\<close> catches the exception first and answers "not
  ambiguous". With the intent classified and an ambiguity model that raises,
  the stage adopts that answer and the state continues with
  \<open>requires_clarification = False\<close>.
\<close>

theorem check_ambiguity_model_failure_not_degraded:
  "ambiguity_chain (sample_env\<lparr>ambiguity_chain := \<lambda>q d. Inl CollaboratorError\<rparr>)
      ''Tell me about Midas'' [] = Inl CollaboratorError \<and>
   fst (check_ambiguity (sample_env\<lparr>ambiguity_chain := \<lambda>q d. Inl CollaboratorError\<rparr>)
          classified_state empty_world)
     = [SetAmbiguityCheck (Some ambiguity_fallback), SetRequiresClarification False] \<and>
   is_ambiguous ambiguity_fallback = False \<and>
   requires_clarification (apply_updates
     (fst (check_ambiguity (sample_env\<lparr>ambiguity_chain := \<lambda>q d. Inl CollaboratorError\<rparr>)
          classified_state empty_world))
     classified_state) = False"
  by code_simp

section \<open>The whole run\<close>

lemma mk_QueryResponse_unit:
  "mk_QueryResponse t c = Inr r \<Longrightarrow> in_unit (qr_confidence_score r)"
  by (auto simp: mk_QueryResponse_def split: if_splits)

lemma mk_QueryResponse_zero:
  "mk_QueryResponse t 0 = Inr \<lparr>response = t, qr_confidence_score = 0\<rparr>"
  by (simp add: mk_QueryResponse_def in_unit_def)

lemma generate_response_body_unit:
  "generate_response_body e s = Inr r \<Longrightarrow> in_unit (qr_confidence_score r)"
  by (auto simp: generate_response_body_def split: if_splits option.splits
        dest: mk_QueryResponse_unit)

text \<open>The last node always writes a response, and its confidence is in range.\<close>

lemma generate_response_sets:
  "\<exists>r. generate_response e s = [SetResponse (Some r)] \<and> in_unit (qr_confidence_score r)"
proof (cases "generate_response_body e s")
  case (Inl err)
  then show ?thesis by (simp add: generate_response_def in_unit_def)
next
  case (Inr r)
  then show ?thesis by (simp add: generate_response_def generate_response_body_unit)
qed

lemma generated_response_unit:
  "\<exists>r. state_response (apply_updates (generate_response e s) s) = Some r \<and>
       in_unit (qr_confidence_score r)"
proof -
  obtain r where "generate_response e s = [SetResponse (Some r)]"
    and "in_unit (qr_confidence_score r)"
    using generate_response_sets by blast
  then show ?thesis by (simp add: apply_updates_def)
qed

lemma graph_ainvoke_response:
  "\<exists>r. state_response (fst (graph_ainvoke e s w)) = Some r \<and> in_unit (qr_confidence_score r)"
  by (simp add: graph_ainvoke_def Let_def split: prod.split)
     (blast intro: generated_response_unit)

text \<open>
  C2. For every argument (a query string, or any other object), every
  environment and every state of the cache, \<open>process_query\<close> returns a response
  and not an exception, and the confidence of the response lies in [0, 1].
\<close>

theorem process_query_total:
  "\<exists>r. fst (process_query e arg w) = Inr r \<and>
       0 \<le> qr_confidence_score r \<and> qr_confidence_score r \<le> 1"
proof (cases arg)
  case PyOther
  then show ?thesis
    by (simp add: process_query_def process_query_body_def mk_QueryResponse_zero)
next
  case (PyStr q)
  obtain r where r: "state_response (fst (graph_ainvoke e (initial_state q) w)) = Some r"
    and u: "in_unit (qr_confidence_score r)"
    using graph_ainvoke_response by blast
  obtain fs w1 where g: "graph_ainvoke e (initial_state q) w = (fs, w1)"
    by (cases "graph_ainvoke e (initial_state q) w")
  with r have "state_response fs = Some r" by simp
  with g PyStr have "fst (process_query e arg w) = Inr r"
    by (simp add: process_query_def process_query_body_def)
  with u show ?thesis by (auto simp: in_unit_def)
qed

text \<open>Two degraded runs: every collaborator fails; the argument is not a string.\<close>

theorem process_query_total_witness:
  "fst (process_query failing_env (PyStr ''Where is OpenAI headquartered?'') empty_world)
     = Inr \<lparr>response = ''Could not find enough reliable information to answer your query'',
            qr_confidence_score = 0\<rparr> \<and>
   fst (process_query sample_env PyOther empty_world)
     = Inr \<lparr>response = ''An error occurred while processing your query'',
            qr_confidence_score = 0\<rparr>"
proof -
  have a: "fst (process_query failing_env (PyStr ''Where is OpenAI headquartered?'') empty_world)
     = Inr \<lparr>response = ''Could not find enough reliable information to answer your query'',
            qr_confidence_score = 0\<rparr>"
    by code_simp
  have b: "fst (process_query sample_env PyOther empty_world)
     = Inr \<lparr>response = ''An error occurred while processing your query'',
            qr_confidence_score = 0\<rparr>"
    by code_simp
  show ?thesis
    using a b
      process_query_total [of failing_env "PyStr ''Where is OpenAI headquartered?''" empty_world]
    by simp
qed

text \<open>The stages of a run whose checker asks for clarification.\<close>

lemma analyze_intent_sets:
  "\<exists>i. analyze_intent e s w =
         ([SetIntent (Some i), SetAmbiguityCheck None, SetRequiresClarification False],
          record_call (IntentModel (state_query s)) w)"
  by (simp add: analyze_intent_def qp_analyze_intent_def Let_def split: sum.split option.split)

lemma format_retrieved_data_empty:
  "format_retrieved_data [(''wiki'', []), (''tavily'', [])] = []"
  by (simp add: format_retrieved_data_def)

lemma check_ambiguity_ambiguous:
  assumes "intent s \<noteq> None" "wiki_results s = None" "tavily_results s = None"
    and "ambiguity_chain e (state_query s) [] = Inr raw"
    and "raw_is_ambiguous raw"
    and "0 \<le> raw_confidence_score raw \<and> raw_confidence_score raw \<le> 1"
  shows "check_ambiguity e s w =
           ([SetAmbiguityCheck (Some \<lparr>is_ambiguous = True,
                clarification_message = raw_clarification_message raw,
                possible_interpretations = raw_possible_interpretations raw,
                ac_confidence_score = raw_confidence_score raw\<rparr>),
             SetRequiresClarification True],
            record_call (AmbiguityModel (state_query s) []) w)"
  using assms
  by (simp add: check_ambiguity_def qp_check_ambiguity_def Let_def results_of_def
        format_retrieved_data_empty mk_AmbiguityCheck_def in_unit_def)

lemma retrieve_wiki_data_skip:
  "intent s = None \<or> requires_clarification s \<Longrightarrow>
   retrieve_wiki_data e s w = ([SetWikiResults None], w)"
  by (auto simp: retrieve_wiki_data_def split: option.splits)

lemma retrieve_tavily_data_node_skip:
  "intent s = None \<or> requires_clarification s \<Longrightarrow>
   retrieve_tavily_data_node e s w = ([SetTavilyResults None], w)"
  by (auto simp: retrieve_tavily_data_node_def split: option.splits)

lemma evaluate_data_node_skip:
  "requires_clarification s \<Longrightarrow>
   evaluate_data_node e s w =
     ([SetEvaluation (Some (invalid_result ''Query requires clarification''))], w)"
  by (simp add: evaluate_data_node_def)

lemma generate_response_clarification:
  assumes "requires_clarification s"
    and "ambiguity_check s = Some a" and "clarification_message a = Some m" and "m \<noteq> []"
  shows "generate_response e s = [SetResponse (Some \<lparr>response = m, qr_confidence_score = 0\<rparr>)]"
  using assms
  by (simp add: generate_response_def generate_response_body_def clarification_msg_of_def
        mk_QueryResponse_zero)

lemma qp_check_ambiguity_ambiguous:
  assumes "fst (qp_check_ambiguity e q d wq) = Inr chk" and "is_ambiguous chk"
  shows "\<exists>raw. ambiguity_chain e q (format_retrieved_data d) = Inr raw \<and>
           raw_is_ambiguous raw \<and>
           0 \<le> raw_confidence_score raw \<and> raw_confidence_score raw \<le> 1 \<and>
           raw_clarification_message raw = clarification_message chk"
  using assms
  by (auto simp: qp_check_ambiguity_def Let_def mk_AmbiguityCheck_def ambiguity_fallback_def
        in_unit_def split: sum.splits if_splits)

text \<open>
  C8. For every run in which the ambiguity checker (\<open>QueryParser.check_ambiguity\<close>,
  asked about the query with no evidence yet) returns a verdict that is
  ambiguous and carries a non-empty clarification message, \<open>process_query\<close>
  returns exactly that message with confidence 0, and the only calls that leave
  the process are the intent model's and the ambiguity model's: no cache
  lookup, no retrieval provider, no evaluator model.
\<close>

theorem ambiguous_query_short_circuit:
  assumes "fst (qp_check_ambiguity e q [(''wiki'', []), (''tavily'', [])] wq) = Inr verdict"
    and "is_ambiguous verdict"
    and "clarification_message verdict = Some m" and "m \<noteq> []"
  shows "process_query e (PyStr q) w =
           (Inr \<lparr>response = m, qr_confidence_score = 0\<rparr>,
            w\<lparr>calls := calls w @ [IntentModel q, AmbiguityModel q []]\<rparr>)"
proof -
  obtain raw where raw: "ambiguity_chain e q [] = Inr raw" "raw_is_ambiguous raw"
      "0 \<le> raw_confidence_score raw \<and> raw_confidence_score raw \<le> 1"
      "raw_clarification_message raw = Some m"
    using qp_check_ambiguity_ambiguous [OF assms(1,2)] assms(3)
    by (auto simp: format_retrieved_data_empty)
  let ?s0 = "initial_state q"
  obtain i where a: "analyze_intent e ?s0 w =
      ([SetIntent (Some i), SetAmbiguityCheck None, SetRequiresClarification False],
       record_call (IntentModel q) w)"
    using analyze_intent_sets [of e ?s0 w] by (auto simp: initial_state_def)
  define s1 where "s1 = apply_updates [SetIntent (Some i), SetAmbiguityCheck None,
                                      SetRequiresClarification False] ?s0"
  define w1 where "w1 = record_call (IntentModel q) w"
  have s1: "intent s1 \<noteq> None" "wiki_results s1 = None" "tavily_results s1 = None"
    "state_query s1 = q"
    by (simp_all add: s1_def apply_updates_def initial_state_def)
  define chk where "chk = \<lparr>is_ambiguous = True,
                clarification_message = raw_clarification_message raw,
                possible_interpretations = raw_possible_interpretations raw,
                ac_confidence_score = raw_confidence_score raw\<rparr>"
  have c: "check_ambiguity e s1 w1 =
      ([SetAmbiguityCheck (Some chk), SetRequiresClarification True],
       record_call (AmbiguityModel q []) w1)"
    using check_ambiguity_ambiguous [of s1 e raw w1] s1 raw by (simp add: chk_def)
  define s2 where "s2 = apply_updates [SetAmbiguityCheck (Some chk),
                                      SetRequiresClarification True] s1"
  define w2 where "w2 = record_call (AmbiguityModel q []) w1"
  have s2: "requires_clarification s2" "ambiguity_check s2 = Some chk"
    by (simp_all add: s2_def apply_updates_def)
  have rw: "retrieve_wiki_data e s2 w2 = ([SetWikiResults None], w2)"
    and rt: "retrieve_tavily_data_node e s2 w2 = ([SetTavilyResults None], w2)"
    using s2 by (simp_all add: retrieve_wiki_data_skip retrieve_tavily_data_node_skip)
  have rb: "retrieve_both e s2 w2 = ([SetWikiResults None, SetTavilyResults None], w2)"
    by (simp add: retrieve_both_def rw rt)
  define s3 where "s3 = apply_updates [SetWikiResults None, SetTavilyResults None] s2"
  have s3: "requires_clarification s3" "ambiguity_check s3 = Some chk"
    using s2 by (simp_all add: s3_def apply_updates_def)
  have ev: "evaluate_data_node e s3 w2 =
      ([SetEvaluation (Some (invalid_result ''Query requires clarification''))], w2)"
    using s3 by (simp add: evaluate_data_node_skip)
  define s4 where "s4 = apply_updates
      [SetEvaluation (Some (invalid_result ''Query requires clarification''))] s3"
  have s4: "requires_clarification s4" "ambiguity_check s4 = Some chk"
    using s3 by (simp_all add: s4_def apply_updates_def)
  have g: "generate_response e s4 =
             [SetResponse (Some \<lparr>response = m, qr_confidence_score = 0\<rparr>)]"
    using generate_response_clarification [of s4 chk m e] s4 raw \<open>m \<noteq> []\<close>
    by (simp add: chk_def)
  have "graph_ainvoke e ?s0 w =
          (apply_updates [SetResponse (Some \<lparr>response = m, qr_confidence_score = 0\<rparr>)] s4, w2)"
    unfolding graph_ainvoke_def
    by (simp add: a c rb ev g s1_def [symmetric] w1_def [symmetric] s2_def [symmetric]
          w2_def [symmetric] s3_def [symmetric] s4_def [symmetric] Let_def)
  moreover have "w2 = w\<lparr>calls := calls w @ [IntentModel q, AmbiguityModel q []]\<rparr>"
    by (simp add: w2_def w1_def record_call_def)
  ultimately show ?thesis
    by (simp add: process_query_def process_query_body_def apply_updates_def)
qed

theorem ambiguous_query_short_circuit_witness:
  "process_query ambiguous_env (PyStr ''Tell me about Midas'') empty_world =
     (Inr \<lparr>response = ''Did you mean company X or Y?'', qr_confidence_score = 0\<rparr>,
      empty_world\<lparr>calls := [IntentModel ''Tell me about Midas'',
                            AmbiguityModel ''Tell me about Midas'' []]\<rparr>)"
proof -
  define verdict where "verdict = \<lparr>is_ambiguous = True,
            clarification_message = Some ''Did you mean company X or Y?'',
            possible_interpretations = Some [''X'', ''Y''],
            ac_confidence_score = (0.8::real)\<rparr>"
  have h1: "fst (qp_check_ambiguity ambiguous_env ''Tell me about Midas''
                   [(''wiki'', []), (''tavily'', [])] empty_world) = Inr verdict"
    by (simp add: qp_check_ambiguity_def ambiguous_env_def verdict_def Let_def
          mk_AmbiguityCheck_def in_unit_def)
  have h2: "is_ambiguous verdict"
    and h3: "clarification_message verdict = Some ''Did you mean company X or Y?''"
    and h4: "''Did you mean company X or Y?'' \<noteq> []"
    by (simp_all add: verdict_def)
  show ?thesis
    using ambiguous_query_short_circuit [OF h1 h2 h3 h4, of empty_world]
    by (simp add: empty_world_def)
qed

section \<open>The retrievers and the cache\<close>

text \<open>A lookup never changes what Redis holds, and neither does a retrieval.\<close>

lemma get_cached_data_redis: "redis (snd (get_cached_data e key src w)) = redis w"
  by (simp add: get_cached_data_def Let_def record_call_def split: option.split stored.split)

lemma retrieve_wikipedia_data_redis:
  "redis (snd (retrieve_wikipedia_data e ia w)) = redis w"
proof (cases "get_cached_data e (generate_wikipedia_query ia) ''wikipedia'' w")
  case (Pair r w1)
  then have "redis w1 = redis w"
    using get_cached_data_redis [of e "generate_wikipedia_query ia" "''wikipedia''" w] by simp
  with Pair show ?thesis
    by (simp add: retrieve_wikipedia_data_def Let_def record_call_def
          split: sum.split option.split json.split)
qed

lemma retrieve_tavily_data_redis:
  "redis (snd (retrieve_tavily_data e ia w)) = redis w"
proof (cases "get_cached_data e (generate_tavily_query e ia) ''Tavily'' w")
  case (Pair r w1)
  then have "redis w1 = redis w"
    using get_cached_data_redis [of e "generate_tavily_query e ia" "''Tavily''" w] by simp
  with Pair show ?thesis
    by (simp add: retrieve_tavily_data_def Let_def record_call_def
          split: sum.split option.split json.split tavily_reply.split)
qed

text \<open>
  C1 asks that a retrieval which misses the cache and gets an answer from its
  provider stores that answer before returning it. The code does not: on an
  empty cache, the Wikipedia retrieval for a location question about OpenAI
  looks the key up, calls the provider and returns the fresh evidence; no
  \<open>SETEX\<close> is recorded, the key is still missing afterwards, and the same
  retrieval run again calls the provider again.
\<close>

theorem retrieve_wikipedia_data_miss_not_stored:
  "fst (retrieve_wikipedia_data sample_env sample_intent empty_world)
     = Inr \<lparr>results = [sample_item], source_tag = ''Wikipedia''\<rparr> \<and>
   calls (snd (retrieve_wikipedia_data sample_env sample_intent empty_world))
     = [RedisGet (generate_cache_key sample_env ''OpenAI headquarters location company''
                    ''wikipedia''),
        WikipediaProvider ''OpenAI headquarters location company''] \<and>
   redis (snd (retrieve_wikipedia_data sample_env sample_intent empty_world))
     (generate_cache_key sample_env ''OpenAI headquarters location company'' ''wikipedia'')
     = None \<and>
   calls (snd (retrieve_wikipedia_data sample_env sample_intent
            (snd (retrieve_wikipedia_data sample_env sample_intent empty_world))))
     = [RedisGet (generate_cache_key sample_env ''OpenAI headquarters location company''
                    ''wikipedia''),
        WikipediaProvider ''OpenAI headquarters location company'',
        RedisGet (generate_cache_key sample_env ''OpenAI headquarters location company''
                    ''wikipedia''),
        WikipediaProvider ''OpenAI headquarters location company'']"
  by code_simp

end
